theory Spec2Isabelle
  imports Main "HOL-Library.Word"
begin

unbundle bit_operations_syntax

section \<open>Machine integers of the host and of the kernel\<close>

text \<open>
  \<^verbatim>\<open>uchar\<close> is an 8-bit byte and \<^verbatim>\<open>cl_int\<close> a 32-bit word (the error codes are
  combined with \<^verbatim>\<open>|=\<close>).  The \<^verbatim>\<open>int\<close> values \<^verbatim>\<open>width\<close>, \<^verbatim>\<open>height\<close>, \<^verbatim>\<open>channels\<close>
  and the indices computed from them are integers with the 32-bit two's-complement
  wrap-around written out at every operation.
\<close>

type_synonym uchar = "8 word"
type_synonym cl_int = "32 word"

definition wrap32 :: "int \<Rightarrow> int" where
  "wrap32 v = (v + 2147483648) mod 4294967296 - 2147483648"

definition add32 :: "int \<Rightarrow> int \<Rightarrow> int" where
  "add32 a b = wrap32 (a + b)"

definition mul32 :: "int \<Rightarrow> int \<Rightarrow> int" where
  "mul32 a b = wrap32 (a * b)"

text \<open>The conversion \<^verbatim>\<open>(size_t)v\<close> of an \<^verbatim>\<open>int\<close> on a 64-bit host.\<close>

definition to_size_t :: "int \<Rightarrow> nat" where
  "to_size_t v = nat (v mod 18446744073709551616)"

section \<open>Single-precision arithmetic of the kernel\<close>

text \<open>
  The kernel evaluates \<^verbatim>\<open>0.299f * red + 0.587f * green + 0.114f * blue\<close> in
  \<^verbatim>\<open>float\<close> (IEEE 754 binary32, round to nearest, ties to even).  Every value that
  occurs is a non-negative multiple of \<open>2\<^sup>-\<^sup>2\<^sup>7\<close> below \<open>2\<^sup>9\<close>, so a value \<open>v\<close> is
  represented exactly by the natural number \<open>v * 2\<^sup>2\<^sup>7\<close> (its numerator over \<open>2\<^sup>2\<^sup>7\<close>).

  \<open>drop_bits n\<close> is the number of low bits of \<open>n\<close> that do not fit a 24-bit
  significand; \<open>f32_nearest p q\<close> is the binary32 value nearest to the ratio \<open>p / q\<close>
  (both in units of \<open>2\<^sup>-\<^sup>2\<^sup>7\<close>), ties going to the even significand.
\<close>

fun drop_bits :: "nat \<Rightarrow> nat" where
  "drop_bits n = (if n < 16777216 then 0 else Suc (drop_bits (n div 2)))"

declare drop_bits.simps [simp del]

definition f32_nearest :: "nat \<Rightarrow> nat \<Rightarrow> nat" where
  "f32_nearest p q =
     (let s = drop_bits (p div q);
          d = q * 2 ^ s;
          k = p div d;
          r = p mod d
      in if d < 2 * r \<or> (2 * r = d \<and> odd k) then (k + 1) * 2 ^ s else k * 2 ^ s)"

definition f32_round :: "nat \<Rightarrow> nat" where
  "f32_round n = f32_nearest n 1"

text \<open>The literals \<^verbatim>\<open>0.299f\<close>, \<^verbatim>\<open>0.587f\<close> and \<^verbatim>\<open>0.114f\<close>.\<close>

definition f32_literal :: "nat \<Rightarrow> nat" where
  "f32_literal thousandths = f32_nearest (thousandths * 2 ^ 27) 1000"

text \<open>
  A device compiler may contract a product and the sum that consumes it into one fused
  multiply-add, which rounds once (OpenCL C leaves \<^verbatim>\<open>FP_CONTRACT\<close> on unless the source
  switches it off, and this kernel does not).  The expression parses as
  \<^verbatim>\<open>(0.299f*red + 0.587f*green) + 0.114f*blue\<close>: \<open>contraction\<close> says what becomes of the
  first sum, the flag what becomes of the second.
\<close>

datatype contraction = Separate | Fused_red | Fused_green

type_synonym fp_contract = "contraction \<times> bool"

definition weighted_sum :: "fp_contract \<Rightarrow> nat \<Rightarrow> nat \<Rightarrow> nat \<Rightarrow> nat" where
  "weighted_sum fp r g b =
     (let pr = f32_literal 299 * r;
          pg = f32_literal 587 * g;
          pb = f32_literal 114 * b;
          s1 = (case fst fp of
                  Separate \<Rightarrow> f32_round (f32_round pr + f32_round pg)
                | Fused_red \<Rightarrow> f32_round (pr + f32_round pg)
                | Fused_green \<Rightarrow> f32_round (f32_round pr + pg))
      in if snd fp then f32_round (s1 + pb) else f32_round (s1 + f32_round pb))"

text \<open>The cast \<^verbatim>\<open>(uchar)\<close> of a \<^verbatim>\<open>float\<close> drops the fraction.\<close>

definition luma :: "fp_contract \<Rightarrow> uchar \<Rightarrow> uchar \<Rightarrow> uchar \<Rightarrow> uchar" where
  "luma fp red green blue =
     of_nat (weighted_sum fp (unat red) (unat green) (unat blue) div 2 ^ 27)"

section \<open>The kernel \<^verbatim>\<open>rgb_to_gray\<close>\<close>

text \<open>
  The three kernel texts (BMP, stb and OpenCV variants) are the same program up to the
  names of the locals.  A work-item with global id \<open>(gx, gy)\<close> reads three bytes of the
  input buffer and writes one byte of the output buffer.  The kernel has no bounds
  check: an access outside a buffer is a fault of the model.
\<close>

datatype fault = Read_out_of_bounds int | Write_out_of_bounds int

definition load :: "uchar list \<Rightarrow> int \<Rightarrow> uchar option" where
  "load buf i = (if 0 \<le> i \<and> i < int (length buf) then Some (buf ! nat i) else None)"

definition pixel_idx :: "int \<Rightarrow> int \<Rightarrow> nat \<times> nat \<Rightarrow> int" where
  "pixel_idx width channels gid =
     (let x = wrap32 (int (fst gid)); y = wrap32 (int (snd gid))
      in mul32 (add32 (mul32 y width) x) channels)"

definition gray_idx :: "int \<Rightarrow> nat \<times> nat \<Rightarrow> int" where
  "gray_idx width gid =
     (let x = wrap32 (int (fst gid)); y = wrap32 (int (snd gid))
      in add32 (mul32 y width) x)"

definition rgb_to_gray ::
  "fp_contract \<Rightarrow> uchar list \<Rightarrow> nat \<Rightarrow> int \<Rightarrow> int \<Rightarrow> int \<Rightarrow> nat \<times> nat \<Rightarrow> fault + (nat \<times> uchar)" where
  "rgb_to_gray fp input out_len width height channels gid =
     (let idx = pixel_idx width channels gid in
      case load input idx of
        None \<Rightarrow> Inl (Read_out_of_bounds idx)
      | Some blue \<Rightarrow>
      (case load input (add32 idx 1) of
        None \<Rightarrow> Inl (Read_out_of_bounds (add32 idx 1))
      | Some green \<Rightarrow>
      (case load input (add32 idx 2) of
        None \<Rightarrow> Inl (Read_out_of_bounds (add32 idx 2))
      | Some red \<Rightarrow>
          (let gray = luma fp red green blue;
               gi = gray_idx width gid
           in if 0 \<le> gi \<and> gi < int out_len then Inr (nat gi, gray)
              else Inl (Write_out_of_bounds gi)))))"

section \<open>The launch over the two-dimensional index space\<close>

text \<open>
  \<^verbatim>\<open>clEnqueueNDRangeKernel\<close> with \<^verbatim>\<open>work_dim = 2\<close> and global size \<open>(gw, gh)\<close> runs one
  work-item for every \<open>(x, y)\<close> with \<open>x < gw\<close> and \<open>y < gh\<close>.  The work-items are run
  here row by row; each writes its own cell of the output buffer.
\<close>

definition work_items :: "nat \<times> nat \<Rightarrow> (nat \<times> nat) list" where
  "work_items gsize = concat (map (\<lambda>y. map (\<lambda>x. (x, y)) [0..<fst gsize]) [0..<snd gsize])"

fun exec_items ::
  "fp_contract \<Rightarrow> uchar list \<Rightarrow> int \<Rightarrow> int \<Rightarrow> int \<Rightarrow> (nat \<times> nat) list \<Rightarrow> uchar list
     \<Rightarrow> fault + uchar list" where
  "exec_items fp input width height channels [] out = Inr out"
| "exec_items fp input width height channels (gid # gids) out =
     (case rgb_to_gray fp input (length out) width height channels gid of
        Inl f \<Rightarrow> Inl f
      | Inr (i, gray) \<Rightarrow> exec_items fp input width height channels gids (out[i := gray]))"

definition enqueueNDRangeKernel ::
  "fp_contract \<Rightarrow> uchar list \<Rightarrow> uchar list \<Rightarrow> int \<Rightarrow> int \<Rightarrow> int \<Rightarrow> nat \<times> nat
     \<Rightarrow> fault + uchar list" where
  "enqueueNDRangeKernel fp input out width height channels gsize =
     exec_items fp input width height channels (work_items gsize) out"

section \<open>The host programs\<close>

subsection \<open>What a run does\<close>

text \<open>
  A run of a host program is the list of its observable actions, in order, and the exit
  status it ends with.  A device object is created only when its \<^verbatim>\<open>clCreate...\<close> call
  reports success; a buffer carries the byte size it was requested with.  \<open>Upload\<close>,
  \<open>Launch\<close> and \<open>Readback\<close> record that the call was issued and with what: the bytes
  to copy, and for the launch the global work size, the local work size (\<open>None\<close> for
  \<^verbatim>\<open>NULL\<close>) and the kernel arguments \<^verbatim>\<open>width\<close>, \<^verbatim>\<open>height\<close> and \<^verbatim>\<open>channels\<close>.
  \<open>Host_alloc\<close> is the allocation of the host result buffer, and \<open>File_written\<close>
  says how many bytes of that buffer the image writer takes.
\<close>

datatype resource = Context | Queue | Program | Input_buffer | Output_buffer | Kernel

datatype event =
    Stderr string
  | Stdout string
  | Create resource "nat option"
  | Release resource
  | Upload nat
  | Launch "nat \<times> nat" "(nat \<times> nat) option" int int int
  | Host_alloc nat
  | Readback nat
  | File_written string nat

datatype run = Running "event list" | Exited int "event list"

fun events :: "run \<Rightarrow> event list" where
  "events (Running t) = t"
| "events (Exited c t) = t"

fun status :: "run \<Rightarrow> int option" where
  "status (Running t) = None"
| "status (Exited c t) = Some c"

text \<open>A statement acts on a run that has not exited; after \<^verbatim>\<open>exit\<close> nothing happens.\<close>

fun step :: "(event list \<Rightarrow> run) \<Rightarrow> run \<Rightarrow> run" where
  "step f (Running t) = f t"
| "step f (Exited c t) = Exited c t"

definition emit :: "event \<Rightarrow> run \<Rightarrow> run" where
  "emit e = step (\<lambda>t. Running (t @ [e]))"

definition exit_with :: "int \<Rightarrow> run \<Rightarrow> run" where
  "exit_with c = step (\<lambda>t. Exited c t)"

text \<open>Statements in sequence, and a whole program started with nothing done yet.\<close>

definition seq :: "(run \<Rightarrow> run) list \<Rightarrow> run \<Rightarrow> run" where
  "seq stmts r = fold (\<lambda>stmt r. stmt r) stmts r"

definition exec :: "(run \<Rightarrow> run) list \<Rightarrow> run" where
  "exec stmts = seq stmts (Running [])"

subsection \<open>Printing\<close>

definition newline :: string where
  "newline = [CHR 0x0A]"

fun digits :: "nat \<Rightarrow> string" where
  "digits n =
     (if n < 10 then [''0123456789'' ! n]
      else digits (n div 10) @ [''0123456789'' ! (n mod 10)])"

declare digits.simps [simp del]

text \<open>The conversion \<^verbatim>\<open>%d\<close> of a \<^verbatim>\<open>cl_int\<close>.\<close>

definition show_int :: "int \<Rightarrow> string" where
  "show_int i = (if i < 0 then CHR ''-'' # digits (nat (- i)) else digits (nat i))"

text \<open>The step descriptions that the programs pass to \<^verbatim>\<open>checkError\<close>.\<close>

datatype description =
    Getting_platform | Getting_device | Creating_context | Creating_command_queue
  | Creating_program | Building_program | Creating_input_buffer | Creating_output_buffer
  | Creating_buffers | Writing_to_input_buffer | Creating_kernel | Setting_kernel_arguments
  | Executing_kernel | Enqueueing_NDRange_kernel | Reading_from_output_buffer

fun message :: "description \<Rightarrow> string" where
  "message Getting_platform = ''Getting platform''"
| "message Getting_device = ''Getting device''"
| "message Creating_context = ''Creating context''"
| "message Creating_command_queue = ''Creating command queue''"
| "message Creating_program = ''Creating program''"
| "message Building_program = ''Building program''"
| "message Creating_input_buffer = ''Creating input buffer''"
| "message Creating_output_buffer = ''Creating output buffer''"
| "message Creating_buffers = ''Creating buffers''"
| "message Writing_to_input_buffer = ''Writing to input buffer''"
| "message Creating_kernel = ''Creating kernel''"
| "message Setting_kernel_arguments = ''Setting kernel arguments''"
| "message Executing_kernel = ''Executing kernel''"
| "message Enqueueing_NDRange_kernel = ''Enqueueing NDRange kernel''"
| "message Reading_from_output_buffer = ''Reading from output buffer''"

declare message.simps [simp del]

definition confirmation :: string where
  "confirmation = ''Grayscale image has been generated.'' @ newline"

definition build_log_text :: "string \<Rightarrow> string" where
  "build_log_text log = ''Build log:'' @ newline @ log @ newline"

definition cannot_open_bmp :: string where
  "cannot_open_bmp = ''Error: Unable to open file image.bmp.'' @ newline"

definition not_a_bmp :: string where
  "not_a_bmp = ''Error: Not a BMP file.'' @ newline"

definition cannot_write_bmp :: string where
  "cannot_write_bmp = ''Error: Unable to open file gray_image.bmp for writing.'' @ newline"

definition cannot_load_jpg :: string where
  "cannot_load_jpg = ''Error: Could not load JPG image.'' @ newline"

definition cannot_load_image :: string where
  "cannot_load_image = ''Error: Could not load image.'' @ newline"

subsection \<open>\<^verbatim>\<open>checkError\<close>\<close>

text \<open>
  \<^verbatim>\<open>if (err != CL_SUCCESS) { fprintf(stderr, "Error: %s (Error code: %d)\n", message, err); exit(1); }\<close>
  in the BMP and stb variants; the OpenCV variant's format string is
  \<^verbatim>\<open>"Error: %s (error code: %d)\n"\<close>.
\<close>

definition error_text :: "string \<Rightarrow> cl_int \<Rightarrow> string" where
  "error_text msg err =
     ''Error: '' @ msg @ '' (Error code: '' @ show_int (sint err) @ '')'' @ newline"

definition error_text_cv :: "string \<Rightarrow> cl_int \<Rightarrow> string" where
  "error_text_cv msg err =
     ''Error: '' @ msg @ '' (error code: '' @ show_int (sint err) @ '')'' @ newline"

definition checkError :: "cl_int \<Rightarrow> string \<Rightarrow> run \<Rightarrow> run" where
  "checkError err msg =
     step (\<lambda>t. if err \<noteq> 0 then Exited 1 (t @ [Stderr (error_text msg err)]) else Running t)"

definition checkError_cv :: "cl_int \<Rightarrow> string \<Rightarrow> run \<Rightarrow> run" where
  "checkError_cv err msg =
     step (\<lambda>t. if err \<noteq> 0 then Exited 1 (t @ [Stderr (error_text_cv msg err)]) else Running t)"

subsection \<open>The OpenCL runtime\<close>

text \<open>
  The error code every runtime call of a run returns, and the build log the device
  compiler keeps.  The calls are those of \<^verbatim>\<open>main\<close>, in its order.
\<close>

record cl_runtime =
  getPlatformIDs :: cl_int
  getDeviceIDs :: cl_int
  createContext :: cl_int
  createCommandQueue :: cl_int
  createProgramWithSource :: cl_int
  buildProgram :: cl_int
  buildLog :: string
  createInputBuffer :: cl_int
  createOutputBuffer :: cl_int
  enqueueWriteBuffer :: cl_int
  createKernel :: cl_int
  setKernelArg0 :: cl_int
  setKernelArg1 :: cl_int
  setKernelArg2 :: cl_int
  setKernelArg3 :: cl_int
  setKernelArg4 :: cl_int
  enqueueNDRange :: cl_int
  enqueueReadBuffer :: cl_int


text \<open>A \<^verbatim>\<open>clCreate...\<close> call yields its object when it reports success.\<close>

definition create :: "resource \<Rightarrow> nat option \<Rightarrow> cl_int \<Rightarrow> run \<Rightarrow> run" where
  "create res bytes err = step (\<lambda>t. Running (if err = 0 then t @ [Create res bytes] else t))"

text \<open>
  \<^verbatim>\<open>clBuildProgram\<close> and the block that follows it: on failure the log is fetched with
  two \<^verbatim>\<open>clGetProgramBuildInfo\<close> calls and printed with \<^verbatim>\<open>"Build log:\n%s\n"\<close> before
  \<^verbatim>\<open>checkError\<close> (the variant's own) is called.
\<close>

definition build_program ::
  "(cl_int \<Rightarrow> string \<Rightarrow> run \<Rightarrow> run) \<Rightarrow> cl_runtime \<Rightarrow> run \<Rightarrow> run" where
  "build_program check rt r =
     (if buildProgram rt \<noteq> 0
      then seq [emit (Stderr (build_log_text (buildLog rt))),
                check (buildProgram rt) (message Building_program)] r
      else r)"

text \<open>
  The five \<^verbatim>\<open>clSetKernelArg\<close> calls: \<^verbatim>\<open>err = ...;\<close> then \<^verbatim>\<open>err |= ...;\<close> four times,
  then one \<^verbatim>\<open>checkError\<close>.
\<close>

definition bind_errors :: "cl_runtime \<Rightarrow> cl_int" where
  "bind_errors rt =
     setKernelArg0 rt OR setKernelArg1 rt OR setKernelArg2 rt OR setKernelArg3 rt
       OR setKernelArg4 rt"

text \<open>The cleanup block and the last two statements, the same in the three variants.\<close>

definition cleanup :: "(run \<Rightarrow> run) list" where
  "cleanup =
     [emit (Release Kernel),
      emit (Release Program),
      emit (Release Input_buffer),
      emit (Release Output_buffer),
      emit (Release Queue),
      emit (Release Context),
      emit (Stdout confirmation),
      exit_with 0]"

subsection \<open>The BMP variant\<close>

text \<open>
  The fields of the info header that the program uses, and the file \<^verbatim>\<open>image.bmp\<close> as
  \<^verbatim>\<open>loadBMP\<close> reads it: the two signature bytes and the info header (the pixel data
  goes to the input buffer unchanged).  \<open>None\<close> is a file that cannot be opened.
\<close>

record BMPInfoHeader =
  biWidth :: int
  biHeight :: int
  biBitCount :: nat
  biSizeImage :: nat

record bmp_file =
  bfType :: string
  info :: BMPInfoHeader

definition loadBMP :: "bmp_file option \<Rightarrow> run + BMPInfoHeader" where
  "loadBMP file =
     (case file of
        None \<Rightarrow> Inl (Exited 1 [Stderr cannot_open_bmp])
      | Some f \<Rightarrow>
          if bfType f \<noteq> ''BM'' then Inl (Exited 1 [Stderr not_a_bmp]) else Inr (info f))"

text \<open>
  \<^verbatim>\<open>saveBMP\<close> writes the file header, the info header it was given and \<^verbatim>\<open>biSizeImage\<close>
  bytes of the result buffer.
\<close>

definition saveBMP :: "bool \<Rightarrow> BMPInfoHeader \<Rightarrow> run \<Rightarrow> run" where
  "saveBMP writable hdr r =
     (if writable then emit (File_written ''gray_image.bmp'' (biSizeImage hdr)) r
      else seq [emit (Stderr cannot_write_bmp), exit_with 1] r)"

definition main_bmp :: "bmp_file option \<Rightarrow> bool \<Rightarrow> cl_runtime \<Rightarrow> run" where
  "main_bmp file writable rt =
     (case loadBMP file of
        Inl failed \<Rightarrow> failed
      | Inr hdr \<Rightarrow>
     (let width = biWidth hdr;
          height = biHeight hdr;
          channels = int (biBitCount hdr div 8)
      in exec (
        [checkError (getPlatformIDs rt) (message Getting_platform),
         checkError (getDeviceIDs rt) (message Getting_device),
         create Context None (createContext rt),
         checkError (createContext rt) (message Creating_context),
         create Queue None (createCommandQueue rt),
         checkError (createCommandQueue rt) (message Creating_command_queue),
         create Program None (createProgramWithSource rt),
         checkError (createProgramWithSource rt) (message Creating_program),
         build_program checkError rt,
         create Input_buffer (Some (biSizeImage hdr)) (createInputBuffer rt),
         checkError (createInputBuffer rt) (message Creating_input_buffer),
         create Output_buffer (Some (to_size_t (mul32 width height))) (createOutputBuffer rt),
         checkError (createOutputBuffer rt) (message Creating_output_buffer),
         emit (Upload (biSizeImage hdr)),
         checkError (enqueueWriteBuffer rt) (message Writing_to_input_buffer),
         create Kernel None (createKernel rt),
         checkError (createKernel rt) (message Creating_kernel),
         checkError (bind_errors rt) (message Setting_kernel_arguments),
         emit (Launch (to_size_t width, to_size_t height) None width height channels),
         checkError (enqueueNDRange rt) (message Executing_kernel),
         emit (Host_alloc (to_size_t (mul32 width height))),
         emit (Readback (to_size_t (mul32 width height))),
         checkError (enqueueReadBuffer rt) (message Reading_from_output_buffer),
         saveBMP writable hdr]
        @ cleanup)))"

subsection \<open>The stb variant\<close>

text \<open>
  What \<^verbatim>\<open>stbi_load("image.jpg", &width, &height, &channels, 3)\<close> hands back: the three
  integers it stores (\<open>None\<close> for a null result).  The writer's result is not looked at.
  The two \<^verbatim>\<open>clCreateBuffer\<close> calls store into the same \<^verbatim>\<open>err\<close> and one \<^verbatim>\<open>checkError\<close>
  follows them, so only the output buffer's error code is tested; the OpenCV variant
  does the same.
\<close>

record stb_image =
  stb_width :: int
  stb_height :: int
  stb_channels :: int

definition write_image :: "bool \<Rightarrow> string \<Rightarrow> nat \<Rightarrow> run \<Rightarrow> run" where
  "write_image writable name n r = (if writable then emit (File_written name n) r else r)"

definition main_stb :: "stb_image option \<Rightarrow> bool \<Rightarrow> cl_runtime \<Rightarrow> run" where
  "main_stb colorImage writable rt =
     (case colorImage of
        None \<Rightarrow> Exited (- 1) [Stderr cannot_load_jpg]
      | Some img \<Rightarrow>
     (let width = stb_width img;
          height = stb_height img;
          channels = stb_channels img
      in exec (
        [checkError (getPlatformIDs rt) (message Getting_platform),
         checkError (getDeviceIDs rt) (message Getting_device),
         create Context None (createContext rt),
         checkError (createContext rt) (message Creating_context),
         create Queue None (createCommandQueue rt),
         checkError (createCommandQueue rt) (message Creating_command_queue),
         create Program None (createProgramWithSource rt),
         checkError (createProgramWithSource rt) (message Creating_program),
         build_program checkError rt,
         create Input_buffer (Some (to_size_t (mul32 (mul32 width height) channels)))
           (createInputBuffer rt),
         create Output_buffer (Some (to_size_t (mul32 width height))) (createOutputBuffer rt),
         checkError (createOutputBuffer rt) (message Creating_buffers),
         emit (Upload (to_size_t (mul32 (mul32 width height) channels))),
         checkError (enqueueWriteBuffer rt) (message Writing_to_input_buffer),
         create Kernel None (createKernel rt),
         checkError (createKernel rt) (message Creating_kernel),
         checkError (bind_errors rt) (message Setting_kernel_arguments),
         emit (Launch (to_size_t width, to_size_t height) None width height channels),
         checkError (enqueueNDRange rt) (message Enqueueing_NDRange_kernel),
         emit (Host_alloc (to_size_t (mul32 width height))),
         emit (Readback (to_size_t (mul32 width height))),
         checkError (enqueueReadBuffer rt) (message Reading_from_output_buffer),
         write_image writable ''gray_image.jpg'' (to_size_t width * to_size_t height)]
        @ cleanup)))"

subsection \<open>The OpenCV variant\<close>

text \<open>
  A \<^verbatim>\<open>cv::Mat\<close> of 8-bit elements as the program uses it: \<^verbatim>\<open>total()\<close> is the number of
  elements (\<^verbatim>\<open>rows * cols\<close>, a pixel with all its channels being one element) and
  \<^verbatim>\<open>elemSize()\<close> the bytes of one element.  The program itself counts on this when it
  uploads \<^verbatim>\<open>total() * elemSize()\<close> bytes and reads back \<^verbatim>\<open>grayImage.total()\<close> bytes into
  the one-channel \<^verbatim>\<open>height\<close> by \<^verbatim>\<open>width\<close> matrix.  \<open>None\<close> is the empty matrix of a
  failed \<^verbatim>\<open>imread\<close>.
\<close>

record mat =
  rows :: nat
  cols :: nat
  mat_channels :: nat

definition total :: "mat \<Rightarrow> nat" where
  "total m = rows m * cols m"

definition elemSize :: "mat \<Rightarrow> nat" where
  "elemSize m = mat_channels m"

definition main_cv :: "mat option \<Rightarrow> bool \<Rightarrow> cl_runtime \<Rightarrow> run" where
  "main_cv loaded writable rt =
     (case loaded of
        None \<Rightarrow> Exited (- 1) [Stderr cannot_load_image]
      | Some colorImage \<Rightarrow>
     (let width = int (cols colorImage);
          height = int (rows colorImage);
          channels = int (mat_channels colorImage);
          grayImage = \<lparr>rows = nat height, cols = nat width, mat_channels = 1\<rparr>
      in exec (
        [checkError_cv (getPlatformIDs rt) (message Getting_platform),
         checkError_cv (getDeviceIDs rt) (message Getting_device),
         create Context None (createContext rt),
         checkError_cv (createContext rt) (message Creating_context),
         create Queue None (createCommandQueue rt),
         checkError_cv (createCommandQueue rt) (message Creating_command_queue),
         create Program None (createProgramWithSource rt),
         checkError_cv (createProgramWithSource rt) (message Creating_program),
         build_program checkError_cv rt,
         create Input_buffer (Some (total colorImage * elemSize colorImage))
           (createInputBuffer rt),
         create Output_buffer (Some (total colorImage div nat channels)) (createOutputBuffer rt),
         checkError_cv (createOutputBuffer rt) (message Creating_buffers),
         emit (Upload (total colorImage * elemSize colorImage)),
         checkError_cv (enqueueWriteBuffer rt) (message Writing_to_input_buffer),
         create Kernel None (createKernel rt),
         checkError_cv (createKernel rt) (message Creating_kernel),
         checkError_cv (bind_errors rt) (message Setting_kernel_arguments),
         emit (Launch (to_size_t width, to_size_t height) None width height channels),
         checkError_cv (enqueueNDRange rt) (message Enqueueing_NDRange_kernel),
         emit (Host_alloc (total grayImage * elemSize grayImage)),
         emit (Readback (total grayImage)),
         checkError_cv (enqueueReadBuffer rt) (message Reading_from_output_buffer),
         write_image writable ''gray_image.jpg'' (total grayImage)]
        @ cleanup)))"

subsection \<open>Reading a run\<close>

fun is_file_written :: "event \<Rightarrow> bool" where
  "is_file_written (File_written name n) = True"
| "is_file_written e = False"

definition wrote_file :: "run \<Rightarrow> bool" where
  "wrote_file r = list_ex is_file_written (events r)"

fun created_of :: "event \<Rightarrow> resource list" where
  "created_of (Create res bytes) = [res]"
| "created_of e = []"

fun released_of :: "event \<Rightarrow> resource list" where
  "released_of (Release res) = [res]"
| "released_of e = []"

definition created :: "run \<Rightarrow> resource list" where
  "created r = concat (map created_of (events r))"

definition released :: "run \<Rightarrow> resource list" where
  "released r = concat (map released_of (events r))"

fun is_launch :: "event \<Rightarrow> bool" where
  "is_launch (Launch gsize lsize w h c) = True"
| "is_launch e = False"

definition launches :: "run \<Rightarrow> event list" where
  "launches r = filter is_launch (events r)"

fun is_stderr :: "event \<Rightarrow> bool" where
  "is_stderr (Stderr s) = True"
| "is_stderr e = False"

text \<open>Some runtime call of the pipeline reports an error.\<close>

definition any_failure :: "cl_runtime \<Rightarrow> bool" where
  "any_failure rt =
     (getPlatformIDs rt \<noteq> 0 \<or> getDeviceIDs rt \<noteq> 0 \<or> createContext rt \<noteq> 0
      \<or> createCommandQueue rt \<noteq> 0 \<or> createProgramWithSource rt \<noteq> 0
      \<or> buildProgram rt \<noteq> 0 \<or> createInputBuffer rt \<noteq> 0 \<or> createOutputBuffer rt \<noteq> 0
      \<or> enqueueWriteBuffer rt \<noteq> 0 \<or> createKernel rt \<noteq> 0
      \<or> setKernelArg0 rt \<noteq> 0 \<or> setKernelArg1 rt \<noteq> 0 \<or> setKernelArg2 rt \<noteq> 0
      \<or> setKernelArg3 rt \<noteq> 0 \<or> setKernelArg4 rt \<noteq> 0
      \<or> enqueueNDRange rt \<noteq> 0 \<or> enqueueReadBuffer rt \<noteq> 0)"

text \<open>
  The checks of a run in program order, each with the description it passes to
  \<^verbatim>\<open>checkError\<close> and the error code it tests, and the first of them that fails.
\<close>

definition checks_bmp :: "cl_runtime \<Rightarrow> (description \<times> cl_int) list" where
  "checks_bmp rt =
     [(Getting_platform, getPlatformIDs rt),
      (Getting_device, getDeviceIDs rt),
      (Creating_context, createContext rt),
      (Creating_command_queue, createCommandQueue rt),
      (Creating_program, createProgramWithSource rt),
      (Building_program, buildProgram rt),
      (Creating_input_buffer, createInputBuffer rt),
      (Creating_output_buffer, createOutputBuffer rt),
      (Writing_to_input_buffer, enqueueWriteBuffer rt),
      (Creating_kernel, createKernel rt),
      (Setting_kernel_arguments, bind_errors rt),
      (Executing_kernel, enqueueNDRange rt),
      (Reading_from_output_buffer, enqueueReadBuffer rt)]"

definition checks_jpg :: "cl_runtime \<Rightarrow> (description \<times> cl_int) list" where
  "checks_jpg rt =
     [(Getting_platform, getPlatformIDs rt),
      (Getting_device, getDeviceIDs rt),
      (Creating_context, createContext rt),
      (Creating_command_queue, createCommandQueue rt),
      (Creating_program, createProgramWithSource rt),
      (Building_program, buildProgram rt),
      (Creating_buffers, createOutputBuffer rt),
      (Writing_to_input_buffer, enqueueWriteBuffer rt),
      (Creating_kernel, createKernel rt),
      (Setting_kernel_arguments, bind_errors rt),
      (Enqueueing_NDRange_kernel, enqueueNDRange rt),
      (Reading_from_output_buffer, enqueueReadBuffer rt)]"

definition first_failure :: "(description \<times> cl_int) list \<Rightarrow> (description \<times> cl_int) option" where
  "first_failure checks = find (\<lambda>c. snd c \<noteq> 0) checks"

text \<open>
  A run that aborted: it exited with status 1, the last thing it did was to print the
  line to the error stream, it wrote no image file and released nothing.  A run that
  completed: it returned 0, the last thing it did was to print the confirmation on
  standard output, and it printed nothing on the error stream.
\<close>

definition aborted :: "string \<Rightarrow> run \<Rightarrow> bool" where
  "aborted line r =
     (status r = Some 1 \<and> events r \<noteq> [] \<and> last (events r) = Stderr line
      \<and> \<not> wrote_file r \<and> released r = [])"

definition completed :: "run \<Rightarrow> bool" where
  "completed r =
     (status r = Some 0 \<and> events r \<noteq> [] \<and> last (events r) = Stdout confirmation
      \<and> \<not> list_ex is_stderr (events r))"

text \<open>The order in which the programs create and release the device objects.\<close>

definition creation_order :: "resource list" where
  "creation_order = [Context, Queue, Program, Input_buffer, Output_buffer, Kernel]"

definition release_order :: "resource list" where
  "release_order = [Kernel, Program, Input_buffer, Output_buffer, Queue, Context]"

text \<open>A runtime on which every call succeeds, and the same with one call failing.\<close>

definition all_succeed :: cl_runtime where
  "all_succeed =
     \<lparr>getPlatformIDs = 0, getDeviceIDs = 0, createContext = 0, createCommandQueue = 0,
      createProgramWithSource = 0, buildProgram = 0, buildLog = [],
      createInputBuffer = 0, createOutputBuffer = 0, enqueueWriteBuffer = 0,
      createKernel = 0, setKernelArg0 = 0, setKernelArg1 = 0, setKernelArg2 = 0,
      setKernelArg3 = 0, setKernelArg4 = 0, enqueueNDRange = 0, enqueueReadBuffer = 0\<rparr>"

subsection \<open>The byte order of the staged pixels\<close>

text \<open>
  The image loaders are outside the repository.  A BMP file stores a pixel as blue,
  green, red and \<^verbatim>\<open>loadBMP\<close> copies the file's bytes; \<^verbatim>\<open>cv::imread\<close> delivers blue,
  green, red; \<^verbatim>\<open>stbi_load\<close> with three requested components delivers red, green, blue
  (the call is commented \<^verbatim>\<open>// Load as RGB\<close> in the source).
\<close>

datatype variant = BMP | STB | OpenCV

datatype channel = Red | Green | Blue

fun loader_order :: "variant \<Rightarrow> channel list" where
  "loader_order BMP = [Blue, Green, Red]"
| "loader_order STB = [Red, Green, Blue]"
| "loader_order OpenCV = [Blue, Green, Red]"

text \<open>The kernel calls the byte at \<^verbatim>\<open>idx\<close> blue, at \<^verbatim>\<open>idx + 1\<close> green, at \<^verbatim>\<open>idx + 2\<close> red.\<close>

definition kernel_order :: "channel list" where
  "kernel_order = [Blue, Green, Red]"

record colour =
  red_of :: uchar
  green_of :: uchar
  blue_of :: uchar

fun component :: "colour \<Rightarrow> channel \<Rightarrow> uchar" where
  "component p Red = red_of p"
| "component p Green = green_of p"
| "component p Blue = blue_of p"

text \<open>
  The staged bytes of an image given as its rows of pixels, in the order the loader
  stores them.  A row of a 24-bit BMP is padded to a multiple of four bytes (the padding
  is taken to be zero bytes); the other two loaders store the rows one after the other.
\<close>

definition pixel_bytes :: "variant \<Rightarrow> colour \<Rightarrow> uchar list" where
  "pixel_bytes v p = map (component p) (loader_order v)"

definition row_bytes :: "variant \<Rightarrow> colour list \<Rightarrow> uchar list" where
  "row_bytes v row =
     (let bytes = concat (map (pixel_bytes v) row)
      in case v of
           BMP \<Rightarrow> bytes @ replicate ((4 - length bytes mod 4) mod 4) 0
         | STB \<Rightarrow> bytes
         | OpenCV \<Rightarrow> bytes)"

definition stage :: "variant \<Rightarrow> colour list list \<Rightarrow> uchar list" where
  "stage v image_rows = concat (map (row_bytes v) image_rows)"

text \<open>Small inputs for the three loaders: a 1 by 1 BMP of 24 bits per pixel (its row is
  padded to four bytes), a 1 by 1 three-channel JPEG, and a 3 by 2 three-channel matrix.\<close>

definition tiny_bmp :: bmp_file where
  "tiny_bmp = \<lparr>bfType = ''BM'',
               info = \<lparr>biWidth = 1, biHeight = 1, biBitCount = 24, biSizeImage = 4\<rparr>\<rparr>"


definition small_mat :: mat where
  "small_mat = \<lparr>rows = 2, cols = 3, mat_channels = 3\<rparr>"

text \<open>The zero-filled input buffer of a 30000 by 30000 image of three channels.\<close>

definition huge_input :: "uchar list" where
  "huge_input = replicate 2700000000 0"

section \<open>Evaluation rules\<close>

lemma step_if: "step f (if c then a else b) = (if c then step f a else step f b)"
  by simp

lemmas stmt_defs = seq_def exec_def cleanup_def checkError_def checkError_cv_def
  create_def emit_def exit_with_def build_program_def saveBMP_def write_image_def
  step_if

lemmas main_defs = main_bmp_def loadBMP_def main_stb_def main_cv_def Let_def

text \<open>Rules that evaluate the rounding on numerals only (the defining equation of
  \<open>drop_bits\<close> is recursive and is never unfolded on a variable).\<close>

lemma drop_bits_numeral:
  "drop_bits (numeral k) =
     (if (numeral k :: nat) < 16777216 then 0 else Suc (drop_bits (numeral k div 2)))"
  by (rule drop_bits.simps)

lemma drop_bits_small: "n < 16777216 \<Longrightarrow> drop_bits n = 0"
  by (simp add: drop_bits.simps)

lemma f32_nearest_numeral:
  "f32_nearest (numeral p) (numeral q) =
     (let s = drop_bits (numeral p div numeral q);
          d = numeral q * 2 ^ s;
          k = numeral p div d;
          r = numeral p mod d
      in if d < 2 * r \<or> (2 * r = d \<and> odd k) then (k + 1) * 2 ^ s else k * 2 ^ s)"
  by (rule f32_nearest_def)

lemma f32_round_numeral:
  "f32_round (numeral p) =
     (let s = drop_bits (numeral p);
          d = 2 ^ s;
          k = numeral p div d;
          r = numeral p mod d
      in if d < 2 * r \<or> (2 * r = d \<and> odd k) then (k + 1) * 2 ^ s else k * 2 ^ s)"
  by (simp add: f32_round_def f32_nearest_def)

lemma f32_round_0: "f32_round 0 = 0"
  by (simp add: f32_round_def f32_nearest_def drop_bits_small)

lemmas f32_eval = drop_bits_numeral f32_nearest_numeral f32_round_numeral f32_round_0 Let_def

lemma f32_literal_299: "f32_literal 299 = 40131100"
  by (simp add: f32_literal_def f32_eval)

lemma f32_literal_587: "f32_literal 587 = 78785808"
  by (simp add: f32_literal_def f32_eval)

lemma f32_literal_114: "f32_literal 114 = 15300821"
  by (simp add: f32_literal_def f32_eval)

lemmas f32_literals = f32_literal_299 f32_literal_587 f32_literal_114

lemma wrap32_id: "- 2147483648 \<le> v \<Longrightarrow> v < 2147483648 \<Longrightarrow> wrap32 v = v"
  by (simp add: wrap32_def)

section \<open>Accuracy of the rounding\<close>

lemma drop_bits_le: "n < 2 ^ (24 + k) \<Longrightarrow> drop_bits n \<le> k"
proof (induction k arbitrary: n)
  case 0
  then show ?case by (simp add: drop_bits_small)
next
  case (Suc k)
  show ?case
  proof (cases "n < 16777216")
    case True
    then show ?thesis by (simp add: drop_bits_small)
  next
    case False
    have "(2::nat) ^ (24 + Suc k) = 2 * 2 ^ (24 + k)"
      by (simp only: add_Suc_right power_Suc)
    with Suc.prems have "n < 2 * 2 ^ (24 + k)" by simp
    then have "n div 2 < 2 ^ (24 + k)" by arith
    then have "drop_bits (n div 2) \<le> k" by (rule Suc.IH)
    with False show ?thesis by (subst drop_bits.simps) simp
  qed
qed

lemma f32_round_near:
  "f32_round n \<le> n + 2 ^ drop_bits n \<and> n \<le> f32_round n + 2 ^ drop_bits n"
proof -
  define d :: nat where "d = 2 ^ drop_bits n"
  define q where "q = (n div d) * d"
  have n: "n = q + n mod d" by (simp add: q_def)
  have r: "n mod d < d" by (simp add: d_def)
  have "f32_round n = q \<or> f32_round n = q + d"
    by (simp add: f32_round_def f32_nearest_def Let_def d_def q_def)
  then show ?thesis
    unfolding d_def[symmetric] using n r by arith
qed

lemma f32_round_4096:
  assumes "n < 68719476736"
  shows "f32_round n \<le> n + 4096 \<and> n \<le> f32_round n + 4096"
proof -
  have "n < 2 ^ (24 + 12)" using assms by simp
  then have "drop_bits n \<le> 12" by (rule drop_bits_le)
  then have "(2::nat) ^ drop_bits n \<le> 2 ^ 12" by (rule power_increasing) simp
  then show ?thesis using f32_round_near [of n] by simp
qed

section \<open>The luminance against the exact weighted sum\<close>

lemma weighted_sum_near:
  assumes "r \<le> 255" "g \<le> 255" "b \<le> 255"
  shows "weighted_sum fp r g b \<le> 40131100 * r + 78785808 * g + 15300821 * b + 20480
       \<and> 40131100 * r + 78785808 * g + 15300821 * b \<le> weighted_sum fp r g b + 20480"
proof -
  define pr pg pb where "pr = 40131100 * r" and "pg = 78785808 * g" and "pb = 15300821 * b"
  have bnd: "pr \<le> 10233430500" "pg \<le> 20090381040" "pb \<le> 3901709355"
    using assms by (simp_all add: pr_def pg_def pb_def)
  note R = f32_round_4096
  have rr: "f32_round pr \<le> pr + 4096 \<and> pr \<le> f32_round pr + 4096"
    using bnd by (intro R) simp
  have rg: "f32_round pg \<le> pg + 4096 \<and> pg \<le> f32_round pg + 4096"
    using bnd by (intro R) simp
  have rb: "f32_round pb \<le> pb + 4096 \<and> pb \<le> f32_round pb + 4096"
    using bnd by (intro R) simp
  define s1 where "s1 = (case fst fp of
                  Separate \<Rightarrow> f32_round (f32_round pr + f32_round pg)
                | Fused_red \<Rightarrow> f32_round (pr + f32_round pg)
                | Fused_green \<Rightarrow> f32_round (f32_round pr + pg))"
  have s1: "s1 \<le> pr + pg + 12288 \<and> pr + pg \<le> s1 + 12288"
  proof (cases "fst fp")
    case Separate
    have "f32_round pr + f32_round pg < 68719476736" using rr rg bnd by arith
    from R [OF this] rr rg show ?thesis by (simp add: s1_def Separate)
  next
    case Fused_red
    have "pr + f32_round pg < 68719476736" using rr rg bnd by arith
    from R [OF this] rr rg show ?thesis by (simp add: s1_def Fused_red)
  next
    case Fused_green
    have "f32_round pr + pg < 68719476736" using rr rg bnd by arith
    from R [OF this] rr rg show ?thesis by (simp add: s1_def Fused_green)
  qed
  have ws: "weighted_sum fp r g b =
      (if snd fp then f32_round (s1 + pb) else f32_round (s1 + f32_round pb))"
    unfolding weighted_sum_def f32_literals s1_def pr_def pg_def pb_def Let_def by (rule refl)
  show ?thesis
  proof (cases "snd fp")
    case True
    have "s1 + pb < 68719476736" using s1 bnd by arith
    from R [OF this] s1 show ?thesis
      unfolding ws pr_def[symmetric] pg_def[symmetric] pb_def[symmetric] by (simp add: True)
  next
    case False
    have "s1 + f32_round pb < 68719476736" using s1 rb bnd by arith
    from R [OF this] s1 rb show ?thesis
      unfolding ws pr_def[symmetric] pg_def[symmetric] pb_def[symmetric] by (simp add: False)
  qed
qed

lemma unat_uchar_le: "unat (x :: uchar) \<le> 255"
  using unsigned_less [of x, where 'a = nat] by simp

lemma weighted_sum_div:
  assumes "r \<le> 255" "g \<le> 255" "b \<le> 255"
  defines "e \<equiv> 299 * r + 587 * g + 114 * b"
  shows "weighted_sum fp r g b div 2 ^ 27 = e div 1000
       \<or> (e mod 1000 = 0 \<and> weighted_sum fp r g b div 2 ^ 27 + 1 = e div 1000)"
proof -
  define V where "V = weighted_sum fp r g b"
  define S where "S = 40131100 * r + 78785808 * g + 15300821 * b"
  define N k where "N = e div 1000" and "k = e mod 1000"
  have e: "e = 1000 * N + k" and k: "k < 1000" by (simp_all add: N_def k_def)
  have V: "V \<le> S + 20480" "S \<le> V + 20480"
    using weighted_sum_near [OF assms(1-3), of fp] by (simp_all add: V_def S_def)
  have S: "1000 * S + 672 * r = 134217728 * e + 1664 * g + 8 * b"
    by (simp add: S_def e_def)
  have hi: "1000 * V \<le> 134217728 * e + 20906360"
    using V(1) S assms(2,3) by linarith
  have lo: "134217728 * e \<le> 1000 * V + 20651360"
    using V(2) S assms(1) by linarith
  have up: "V < 134217728 * Suc N" using hi e k by simp
  show ?thesis
  proof (cases "134217728 * N \<le> V")
    case True
    then have "V div 134217728 = N" using up by (rule div_nat_eqI)
    then show ?thesis by (simp add: V_def N_def)
  next
    case False
    then have k0: "k = 0" using lo e by simp
    from False obtain M where M: "N = Suc M" by (cases N) auto
    have "134217728 * M \<le> V" using lo e k0 M by simp
    moreover have "V < 134217728 * Suc M" using False M by simp
    ultimately have "V div 134217728 = M" by (rule div_nat_eqI)
    then show ?thesis using k0 M by (simp add: V_def N_def k_def)
  qed
qed

lemma luma_floor:
  "unat (luma fp red green blue) = (299 * unat red + 587 * unat green + 114 * unat blue) div 1000
   \<or> ((299 * unat red + 587 * unat green + 114 * unat blue) mod 1000 = 0
      \<and> unat (luma fp red green blue) + 1
          = (299 * unat red + 587 * unat green + 114 * unat blue) div 1000)"
proof -
  define e where "e = 299 * unat red + 587 * unat green + 114 * unat blue"
  define m where "m = weighted_sum fp (unat red) (unat green) (unat blue) div 2 ^ 27"
  have b: "unat red \<le> 255" "unat green \<le> 255" "unat blue \<le> 255"
    by (rule unat_uchar_le)+
  have d: "m = e div 1000 \<or> (e mod 1000 = 0 \<and> m + 1 = e div 1000)"
    unfolding m_def e_def by (rule weighted_sum_div [OF b])
  have "e \<le> 255000" using b by (simp add: e_def)
  then have "e div 1000 \<le> 255" by simp
  with d have "m < 256" by arith
  then have "unat (of_nat m :: uchar) = m" by (simp add: unat_of_nat)
  then have "unat (luma fp red green blue) = m" by (simp add: luma_def m_def)
  with d show ?thesis by (simp add: e_def)
qed

section \<open>Index arithmetic of a work-item\<close>

lemma pixel_number_bounds:
  assumes "0 < w" "0 < h" "x < nat w" "y < nat h"
  shows "0 \<le> int y * w + int x" "int y * w + int x \<le> w * h - 1"
proof -
  have x: "int x \<le> w - 1" and y: "int y \<le> h - 1" using assms by auto
  have "int y * w \<le> (h - 1) * w" using y assms(1) by (intro mult_right_mono) auto
  then show "int y * w + int x \<le> w * h - 1" using x by (simp add: algebra_simps)
  show "0 \<le> int y * w + int x" using assms(1) by simp
qed

lemma gray_idx_exact:
  assumes "0 < w" "0 < h" "w * h \<le> 2147483647" "x < nat w" "y < nat h"
  shows "gray_idx w (x, y) = int y * w + int x"
proof -
  note b = pixel_number_bounds [OF assms(1,2,4,5)]
  have "w * 1 \<le> w * h" using assms(1,2) by (intro mult_left_mono) auto
  then have w: "w \<le> 2147483647" using assms(3) by simp
  have "1 * h \<le> w * h" using assms(1,2) by (intro mult_right_mono) auto
  then have h: "h \<le> 2147483647" using assms(3) by simp
  have x: "wrap32 (int x) = int x" using assms(4) w by (intro wrap32_id) auto
  have y: "wrap32 (int y) = int y" using assms(5) h by (intro wrap32_id) auto
  have "0 \<le> int y * w" using assms(1) by simp
  moreover have "int y * w \<le> w * h - 1" using b(2) by simp
  ultimately have yw: "wrap32 (int y * w) = int y * w" using assms(3) by (intro wrap32_id) auto
  have "wrap32 (int y * w + int x) = int y * w + int x"
    using b assms(3) by (intro wrap32_id) auto
  then show ?thesis by (simp add: gray_idx_def add32_def mul32_def x y yw)
qed

lemma pixel_idx_gray_idx: "pixel_idx w c gid = mul32 (gray_idx w gid) c"
  by (simp add: pixel_idx_def gray_idx_def Let_def)

lemma pixel_idx_exact:
  assumes "0 < w" "0 < h" "1 \<le> c" "w * h * c \<le> 2147483647" "x < nat w" "y < nat h"
  shows "pixel_idx w c (x, y) = (int y * w + int x) * c"
    and "(int y * w + int x) * c + c \<le> w * h * c"
proof -
  have wh0: "0 < w * h" using assms(1,2) by simp
  then have "w * h * 1 \<le> w * h * c" using assms(3) by (intro mult_left_mono) auto
  then have wh: "w * h \<le> 2147483647" using assms(4) by simp
  note b = pixel_number_bounds [OF assms(1,2,5,6)]
  have g: "gray_idx w (x, y) = int y * w + int x"
    by (rule gray_idx_exact [OF assms(1,2) wh assms(5,6)])
  have "(int y * w + int x) * c \<le> (w * h - 1) * c"
    using b(2) assms(3) by (intro mult_right_mono) auto
  then show le: "(int y * w + int x) * c + c \<le> w * h * c" by (simp add: algebra_simps)
  have "0 \<le> (int y * w + int x) * c" using b(1) assms(3) by simp
  then have "wrap32 ((int y * w + int x) * c) = (int y * w + int x) * c"
    using le assms(3,4) by (intro wrap32_id) auto
  then show "pixel_idx w c (x, y) = (int y * w + int x) * c"
    by (simp add: pixel_idx_gray_idx g mul32_def)
qed

lemma load_Some: "0 \<le> i \<Longrightarrow> i < int (length buf) \<Longrightarrow> load buf i = Some (buf ! nat i)"
  by (simp add: load_def)

lemma load_None: "int (length buf) \<le> i \<Longrightarrow> load buf i = None"
  by (simp add: load_def)

lemma rgb_to_gray_reads:
  assumes "rgb_to_gray fp input out_len w h c gid = Inr (i, gray)"
  shows "\<exists>red green blue.
           load input (pixel_idx w c gid) = Some blue
         \<and> load input (add32 (pixel_idx w c gid) 1) = Some green
         \<and> load input (add32 (pixel_idx w c gid) 2) = Some red
         \<and> gray = luma fp red green blue \<and> int i = gray_idx w gid \<and> i < out_len"
  using assms
  by (auto simp: rgb_to_gray_def Let_def split: option.splits if_splits)

lemma rgb_to_gray_in_bounds:
  assumes "0 < w" "0 < h" "3 \<le> c" "w * h * c \<le> 2147483647"
    and "int (length input) = w * h * c" "int out_len = w * h"
    and "x < nat w" "y < nat h"
  defines "p \<equiv> int y * w + int x"
  shows "rgb_to_gray fp input out_len w h c (x, y) =
           Inr (nat p, luma fp (input ! nat (p * c + 2)) (input ! nat (p * c + 1))
                               (input ! nat (p * c)))"
proof -
  have c1: "1 \<le> c" using assms(3) by simp
  note i = pixel_idx_exact [OF assms(1,2) c1 assms(4,7,8), folded p_def]
  note b = pixel_number_bounds [OF assms(1,2,7,8), folded p_def]
  have wh0: "0 < w * h" using assms(1,2) by simp
  then have "w * h * 1 \<le> w * h * c" using c1 by (intro mult_left_mono) auto
  then have wh: "w * h \<le> 2147483647" using assms(4) by simp
  have g: "gray_idx w (x, y) = p"
    unfolding p_def by (rule gray_idx_exact [OF assms(1,2) wh assms(7,8)])
  have p0: "0 \<le> p * c" using b(1) c1 by simp
  have hi: "p * c + 2 < w * h * c" using i(2) assms(3) by simp
  have a1: "add32 (p * c) 1 = p * c + 1" unfolding add32_def
    using p0 hi assms(4) by (intro wrap32_id) auto
  have a2: "add32 (p * c) 2 = p * c + 2" unfolding add32_def
    using p0 hi assms(4) by (intro wrap32_id) auto
  have l0: "load input (p * c) = Some (input ! nat (p * c))"
    using p0 hi assms(5) by (intro load_Some) auto
  have l1: "load input (p * c + 1) = Some (input ! nat (p * c + 1))"
    using p0 hi assms(5) by (intro load_Some) auto
  have l2: "load input (p * c + 2) = Some (input ! nat (p * c + 2))"
    using p0 hi assms(5) by (intro load_Some) auto
  have w: "0 \<le> p \<and> p < int out_len" using b assms(6) by simp
  show ?thesis
    by (simp add: rgb_to_gray_def i(1) g a1 a2 l0 l1 l2 w Let_def)
qed

lemma rgb_to_gray_fault:
  assumes "load input (pixel_idx w c gid) = None
         \<or> load input (add32 (pixel_idx w c gid) 1) = None
         \<or> load input (add32 (pixel_idx w c gid) 2) = None"
  shows "\<exists>f. rgb_to_gray fp input out_len w h c gid = Inl f"
  using assms by (auto simp: rgb_to_gray_def Let_def split: option.splits)

lemma last_pixel_idx:
  assumes "0 < w" "0 < h" "1 \<le> c" "w * h * c \<le> 2147483647"
  shows "pixel_idx w c (nat w - 1, nat h - 1) = (w * h - 1) * c"
proof -
  have x: "nat w - 1 < nat w" and y: "nat h - 1 < nat h" using assms(1,2) by auto
  have "int (nat h - 1) * w + int (nat w - 1) = w * h - 1"
    using assms(1,2) by (simp add: of_nat_diff algebra_simps)
  with pixel_idx_exact(1) [OF assms x y] show ?thesis by simp
qed

lemma rgb_to_gray_narrow_fault:
  assumes "0 < w" "0 < h" "c < 3" "w * h * c \<le> 2147483647"
    and "int (length input) = max 0 (w * h * c)"
  shows "\<exists>x < nat w. \<exists>y < nat h. \<exists>f. rgb_to_gray fp input out_len w h c (x, y) = Inl f"
proof (cases "1 \<le> c")
  case True
  have x: "nat w - 1 < nat w" and y: "nat h - 1 < nat h" using assms(1,2) by auto
  define i where "i = (w * h - 1) * c"
  have idx: "pixel_idx w c (nat w - 1, nat h - 1) = i"
    unfolding i_def by (rule last_pixel_idx [OF assms(1,2) True assms(4)])
  have "0 < w * h" using assms(1,2) by simp
  then have wh1: "1 \<le> w * h" by simp
  have len: "int (length input) = i + c" using assms(5) True wh1
    by (simp add: i_def algebra_simps)
  have i0: "0 \<le> i" using wh1 True by (simp add: i_def)
  have c12: "c = 1 \<or> c = 2" using True assms(3) by arith
  have big: "i + c \<le> 2147483647" using len assms(4,5) True wh1 by (simp add: i_def algebra_simps)
  have "\<exists>f. rgb_to_gray fp input out_len w h c (nat w - 1, nat h - 1) = Inl f"
  proof (cases "c = 1")
    case True
    have a1: "add32 i 1 = i + 1" unfolding add32_def using i0 big True by (intro wrap32_id) auto
    have "load input (i + 1) = None" using len True by (intro load_None) simp
    then have "load input (add32 (pixel_idx w c (nat w - 1, nat h - 1)) 1) = None"
      unfolding idx a1 .
    then show ?thesis by (intro rgb_to_gray_fault) simp
  next
    case False
    then have c2: "c = 2" using c12 by simp
    have a2: "add32 i 2 = i + 2" unfolding add32_def using i0 big c2 by (intro wrap32_id) auto
    have "load input (i + 2) = None" using len c2 by (intro load_None) simp
    then have "load input (add32 (pixel_idx w c (nat w - 1, nat h - 1)) 2) = None"
      unfolding idx a2 .
    then show ?thesis by (intro rgb_to_gray_fault) simp
  qed
  with x y show ?thesis by blast
next
  case False
  then have "w * h * c \<le> 0" using assms(1,2) by (simp add: mult_le_0_iff)
  then have "length input = 0" using assms(5) by simp
  then have "load input 0 = None" by (simp add: load_def)
  moreover have "pixel_idx w c (0, 0) = 0"
    by (simp add: pixel_idx_def add32_def mul32_def wrap32_def)
  ultimately have "\<exists>f. rgb_to_gray fp input out_len w h c (0, 0) = Inl f"
    by (intro rgb_to_gray_fault) simp
  moreover have "0 < nat w" "0 < nat h" using assms(1,2) by auto
  ultimately show ?thesis by blast
qed

section \<open>The index space\<close>






section \<open>The runs of the host programs\<close>

lemmas run_defs = first_failure_def wrote_file_def released_def created_def launches_def
  aborted_def completed_def creation_order_def release_order_def

text \<open>The runtime calls of the BMP variant in program order: either one of them is the
  first to fail, or none fails.  (The five argument binds count as one call, as the
  programs check them.)\<close>

lemma runtime_cases:
  obtains
      "getPlatformIDs rt \<noteq> 0"
    | "getPlatformIDs rt = 0" "getDeviceIDs rt \<noteq> 0"
    | "getPlatformIDs rt = 0" "getDeviceIDs rt = 0" "createContext rt \<noteq> 0"
    | "getPlatformIDs rt = 0" "getDeviceIDs rt = 0" "createContext rt = 0"
          "createCommandQueue rt \<noteq> 0"
    | "getPlatformIDs rt = 0" "getDeviceIDs rt = 0" "createContext rt = 0"
          "createCommandQueue rt = 0" "createProgramWithSource rt \<noteq> 0"
    | "getPlatformIDs rt = 0" "getDeviceIDs rt = 0" "createContext rt = 0"
          "createCommandQueue rt = 0" "createProgramWithSource rt = 0" "buildProgram rt \<noteq> 0"
    | "getPlatformIDs rt = 0" "getDeviceIDs rt = 0" "createContext rt = 0"
          "createCommandQueue rt = 0" "createProgramWithSource rt = 0" "buildProgram rt = 0"
          "createInputBuffer rt \<noteq> 0"
    | "getPlatformIDs rt = 0" "getDeviceIDs rt = 0" "createContext rt = 0"
          "createCommandQueue rt = 0" "createProgramWithSource rt = 0" "buildProgram rt = 0"
          "createInputBuffer rt = 0" "createOutputBuffer rt \<noteq> 0"
    | "getPlatformIDs rt = 0" "getDeviceIDs rt = 0" "createContext rt = 0"
          "createCommandQueue rt = 0" "createProgramWithSource rt = 0" "buildProgram rt = 0"
          "createInputBuffer rt = 0" "createOutputBuffer rt = 0" "enqueueWriteBuffer rt \<noteq> 0"
    | "getPlatformIDs rt = 0" "getDeviceIDs rt = 0" "createContext rt = 0"
          "createCommandQueue rt = 0" "createProgramWithSource rt = 0" "buildProgram rt = 0"
          "createInputBuffer rt = 0" "createOutputBuffer rt = 0" "enqueueWriteBuffer rt = 0"
          "createKernel rt \<noteq> 0"
    | "getPlatformIDs rt = 0" "getDeviceIDs rt = 0" "createContext rt = 0"
          "createCommandQueue rt = 0" "createProgramWithSource rt = 0" "buildProgram rt = 0"
          "createInputBuffer rt = 0" "createOutputBuffer rt = 0" "enqueueWriteBuffer rt = 0"
          "createKernel rt = 0" "bind_errors rt \<noteq> 0"
    | "getPlatformIDs rt = 0" "getDeviceIDs rt = 0" "createContext rt = 0"
          "createCommandQueue rt = 0" "createProgramWithSource rt = 0" "buildProgram rt = 0"
          "createInputBuffer rt = 0" "createOutputBuffer rt = 0" "enqueueWriteBuffer rt = 0"
          "createKernel rt = 0" "bind_errors rt = 0" "enqueueNDRange rt \<noteq> 0"
    | "getPlatformIDs rt = 0" "getDeviceIDs rt = 0" "createContext rt = 0"
          "createCommandQueue rt = 0" "createProgramWithSource rt = 0" "buildProgram rt = 0"
          "createInputBuffer rt = 0" "createOutputBuffer rt = 0" "enqueueWriteBuffer rt = 0"
          "createKernel rt = 0" "bind_errors rt = 0" "enqueueNDRange rt = 0"
          "enqueueReadBuffer rt \<noteq> 0"
    | "getPlatformIDs rt = 0" "getDeviceIDs rt = 0" "createContext rt = 0"
          "createCommandQueue rt = 0" "createProgramWithSource rt = 0" "buildProgram rt = 0"
          "createInputBuffer rt = 0" "createOutputBuffer rt = 0" "enqueueWriteBuffer rt = 0"
          "createKernel rt = 0" "bind_errors rt = 0" "enqueueNDRange rt = 0"
          "enqueueReadBuffer rt = 0"
  by blast

text \<open>The same for the calls whose error code the stb and OpenCV variants test.\<close>

lemma jpg_cases:
  obtains
      "getPlatformIDs rt \<noteq> 0"
    | "getPlatformIDs rt = 0" "getDeviceIDs rt \<noteq> 0"
    | "getPlatformIDs rt = 0" "getDeviceIDs rt = 0" "createContext rt \<noteq> 0"
    | "getPlatformIDs rt = 0" "getDeviceIDs rt = 0" "createContext rt = 0"
          "createCommandQueue rt \<noteq> 0"
    | "getPlatformIDs rt = 0" "getDeviceIDs rt = 0" "createContext rt = 0"
          "createCommandQueue rt = 0" "createProgramWithSource rt \<noteq> 0"
    | "getPlatformIDs rt = 0" "getDeviceIDs rt = 0" "createContext rt = 0"
          "createCommandQueue rt = 0" "createProgramWithSource rt = 0" "buildProgram rt \<noteq> 0"
    | "getPlatformIDs rt = 0" "getDeviceIDs rt = 0" "createContext rt = 0"
          "createCommandQueue rt = 0" "createProgramWithSource rt = 0" "buildProgram rt = 0"
          "createOutputBuffer rt \<noteq> 0"
    | "getPlatformIDs rt = 0" "getDeviceIDs rt = 0" "createContext rt = 0"
          "createCommandQueue rt = 0" "createProgramWithSource rt = 0" "buildProgram rt = 0"
          "createOutputBuffer rt = 0" "enqueueWriteBuffer rt \<noteq> 0"
    | "getPlatformIDs rt = 0" "getDeviceIDs rt = 0" "createContext rt = 0"
          "createCommandQueue rt = 0" "createProgramWithSource rt = 0" "buildProgram rt = 0"
          "createOutputBuffer rt = 0" "enqueueWriteBuffer rt = 0"
          "createKernel rt \<noteq> 0"
    | "getPlatformIDs rt = 0" "getDeviceIDs rt = 0" "createContext rt = 0"
          "createCommandQueue rt = 0" "createProgramWithSource rt = 0" "buildProgram rt = 0"
          "createOutputBuffer rt = 0" "enqueueWriteBuffer rt = 0"
          "createKernel rt = 0" "bind_errors rt \<noteq> 0"
    | "getPlatformIDs rt = 0" "getDeviceIDs rt = 0" "createContext rt = 0"
          "createCommandQueue rt = 0" "createProgramWithSource rt = 0" "buildProgram rt = 0"
          "createOutputBuffer rt = 0" "enqueueWriteBuffer rt = 0"
          "createKernel rt = 0" "bind_errors rt = 0" "enqueueNDRange rt \<noteq> 0"
    | "getPlatformIDs rt = 0" "getDeviceIDs rt = 0" "createContext rt = 0"
          "createCommandQueue rt = 0" "createProgramWithSource rt = 0" "buildProgram rt = 0"
          "createOutputBuffer rt = 0" "enqueueWriteBuffer rt = 0"
          "createKernel rt = 0" "bind_errors rt = 0" "enqueueNDRange rt = 0"
          "enqueueReadBuffer rt \<noteq> 0"
    | "getPlatformIDs rt = 0" "getDeviceIDs rt = 0" "createContext rt = 0"
          "createCommandQueue rt = 0" "createProgramWithSource rt = 0" "buildProgram rt = 0"
          "createOutputBuffer rt = 0" "enqueueWriteBuffer rt = 0"
          "createKernel rt = 0" "bind_errors rt = 0" "enqueueNDRange rt = 0"
          "enqueueReadBuffer rt = 0"
  by blast

lemma bind_errors_zero:
  "(bind_errors rt = 0) =
     (setKernelArg0 rt = 0 \<and> setKernelArg1 rt = 0 \<and> setKernelArg2 rt = 0
      \<and> setKernelArg3 rt = 0 \<and> setKernelArg4 rt = 0)"
  by (simp add: bind_errors_def or_eq_0_iff)

text \<open>
  What a run is, by its first failing check: the program prints that check's line last
  (after the build log, when the check is the build's), exits with status 1, has
  written no file and released nothing.  With no failing check it runs to its end.
\<close>

lemma main_bmp_run:
  assumes "bfType f = ''BM''"
  shows "let r = main_bmp (Some f) w rt in
         case first_failure (checks_bmp rt) of
           Some c \<Rightarrow>
             aborted (error_text (message (fst c)) (snd c)) r \<and> snd c \<noteq> 0
             \<and> (bind_errors rt \<noteq> 0 \<longrightarrow> launches r = [])
             \<and> (fst c = Building_program \<longrightarrow>
                   last (butlast (events r)) = Stderr (build_log_text (buildLog rt)))
         | None \<Rightarrow>
             created r = creation_order
             \<and> launches r
                 = [Launch (to_size_t (biWidth (info f)), to_size_t (biHeight (info f)))
                      None (biWidth (info f)) (biHeight (info f))
                      (int (biBitCount (info f) div 8))]
             \<and> (if w then completed r \<and> released r = release_order \<and> wrote_file r
                 else aborted cannot_write_bmp r)"
  using assms
  by (cases rt rule: runtime_cases)
     (simp_all add: main_defs stmt_defs run_defs checks_bmp_def)

lemma main_stb_run:
  "let r = main_stb (Some img) w rt in
   case first_failure (checks_jpg rt) of
     Some c \<Rightarrow>
       aborted (error_text (message (fst c)) (snd c)) r \<and> snd c \<noteq> 0
       \<and> (bind_errors rt \<noteq> 0 \<longrightarrow> launches r = [])
       \<and> (fst c = Building_program \<longrightarrow>
             last (butlast (events r)) = Stderr (build_log_text (buildLog rt)))
   | None \<Rightarrow>
       completed r \<and> released r = release_order
       \<and> created r
          = (if createInputBuffer rt = 0 then creation_order
             else remove1 Input_buffer creation_order)
       \<and> launches r
           = [Launch (to_size_t (stb_width img), to_size_t (stb_height img))
                None (stb_width img) (stb_height img) (stb_channels img)]
       \<and> wrote_file r = w"
  by (cases rt rule: jpg_cases)
     (simp_all add: main_defs stmt_defs run_defs checks_jpg_def)

lemma main_cv_run:
  "let r = main_cv (Some m) w rt in
   case first_failure (checks_jpg rt) of
     Some c \<Rightarrow>
       aborted (error_text_cv (message (fst c)) (snd c)) r \<and> snd c \<noteq> 0
       \<and> (bind_errors rt \<noteq> 0 \<longrightarrow> launches r = [])
       \<and> (fst c = Building_program \<longrightarrow>
             last (butlast (events r)) = Stderr (build_log_text (buildLog rt)))
   | None \<Rightarrow>
       completed r \<and> released r = release_order
       \<and> created r
          = (if createInputBuffer rt = 0 then creation_order
             else remove1 Input_buffer creation_order)
       \<and> launches r
           = [Launch (to_size_t (int (cols m)), to_size_t (int (rows m)))
                None (int (cols m)) (int (rows m)) (int (mat_channels m))]
       \<and> wrote_file r = w"
  by (cases rt rule: jpg_cases)
     (simp_all add: main_defs stmt_defs run_defs checks_jpg_def)

lemma any_failure_alt:
  "any_failure rt =
     (getPlatformIDs rt \<noteq> 0 \<or> getDeviceIDs rt \<noteq> 0 \<or> createContext rt \<noteq> 0
      \<or> createCommandQueue rt \<noteq> 0 \<or> createProgramWithSource rt \<noteq> 0
      \<or> buildProgram rt \<noteq> 0 \<or> createInputBuffer rt \<noteq> 0 \<or> createOutputBuffer rt \<noteq> 0
      \<or> enqueueWriteBuffer rt \<noteq> 0 \<or> createKernel rt \<noteq> 0 \<or> bind_errors rt \<noteq> 0
      \<or> enqueueNDRange rt \<noteq> 0 \<or> enqueueReadBuffer rt \<noteq> 0)"
  unfolding any_failure_def bind_errors_zero by blast

lemma any_failure_bmp: "any_failure rt = (first_failure (checks_bmp rt) \<noteq> None)"
  by (cases rt rule: runtime_cases)
     (simp_all add: any_failure_alt first_failure_def checks_bmp_def)

text \<open>The stb and OpenCV variants test every error code but the input buffer's.\<close>

lemma any_failure_jpg:
  "any_failure rt = (createInputBuffer rt \<noteq> 0 \<or> first_failure (checks_jpg rt) \<noteq> None)"
  by (cases rt rule: jpg_cases)
     (simp_all add: any_failure_alt first_failure_def checks_jpg_def)

lemma bind_failure_checked:
  assumes "bind_errors rt \<noteq> 0"
  shows "first_failure (checks_bmp rt) \<noteq> None" "first_failure (checks_jpg rt) \<noteq> None"
  using assms
  by (simp_all add: first_failure_def checks_bmp_def checks_jpg_def find_None_iff)

section \<open>Claims about the host programs\<close>

lemma loader_failures:
  "main_bmp None w rt = Exited 1 [Stderr cannot_open_bmp]"
  "bfType f \<noteq> ''BM'' \<Longrightarrow> main_bmp (Some f) w rt = Exited 1 [Stderr not_a_bmp]"
  "main_stb None w rt = Exited (- 1) [Stderr cannot_load_jpg]"
  "main_cv None w rt = Exited (- 1) [Stderr cannot_load_image]"
  by (simp_all add: main_bmp_def loadBMP_def main_stb_def main_cv_def)

lemma aborted_facts:
  "aborted line r \<Longrightarrow> status r = Some 1 \<and> \<not> wrote_file r \<and> released r = []"
  by (simp add: aborted_def)

lemma main_bmp_loader_failed:
  assumes "src = None \<or> (\<exists>f. src = Some f \<and> bfType f \<noteq> ''BM'')"
  shows "status (main_bmp src w rt) = Some 1 \<and> \<not> wrote_file (main_bmp src w rt)
       \<and> released (main_bmp src w rt) = [] \<and> launches (main_bmp src w rt) = []"
  using assms by (auto simp: loader_failures wrote_file_def released_def launches_def)

lemma bmp_file_cases:
  obtains "src = None \<or> (\<exists>f. src = Some f \<and> bfType f \<noteq> ''BM'')"
        | f where "src = Some f" "bfType f = ''BM''"
  by (cases src) auto

text \<open>
  C7.  The five bind error codes are combined with bitwise or before the one check:
  whenever at least one of them is nonzero the combination is nonzero, the check prints
  its line and exits with status 1, and no variant of the program reaches the launch.
\<close>

theorem C7_bind_failure_aborts:
  assumes "setKernelArg0 rt \<noteq> 0 \<or> setKernelArg1 rt \<noteq> 0 \<or> setKernelArg2 rt \<noteq> 0
         \<or> setKernelArg3 rt \<noteq> 0 \<or> setKernelArg4 rt \<noteq> 0"
  shows "bind_errors rt \<noteq> 0
       \<and> checkError (bind_errors rt) (message Setting_kernel_arguments) (Running t)
           = Exited 1 (t @ [Stderr (error_text (message Setting_kernel_arguments)
                                     (bind_errors rt))])
       \<and> status (main_bmp file w rt) = Some 1 \<and> launches (main_bmp file w rt) = []
       \<and> status (main_stb (Some img) w rt) = Some 1 \<and> launches (main_stb (Some img) w rt) = []
       \<and> status (main_cv (Some m) w rt) = Some 1 \<and> launches (main_cv (Some m) w rt) = []"
proof -
  have b: "bind_errors rt \<noteq> 0" using assms by (auto simp: bind_errors_zero)
  from bind_failure_checked [OF b]
  obtain c1 c2 where c: "first_failure (checks_bmp rt) = Some c1"
      "first_failure (checks_jpg rt) = Some c2"
    by fastforce
  have 0: "checkError (bind_errors rt) (message Setting_kernel_arguments) (Running t)
           = Exited 1 (t @ [Stderr (error_text (message Setting_kernel_arguments)
                                     (bind_errors rt))])"
    using b by (simp add: checkError_def)
  have 1: "status (main_bmp file w rt) = Some 1 \<and> launches (main_bmp file w rt) = []"
  proof (cases "file" rule: bmp_file_cases)
    case 1
    then show ?thesis using main_bmp_loader_failed by blast
  next
    case (2 f)
    show ?thesis using main_bmp_run [OF 2(2), of w rt] b c
      by (simp add: 2(1) Let_def aborted_def)
  qed
  have 2: "status (main_stb (Some img) w rt) = Some 1 \<and> launches (main_stb (Some img) w rt) = []"
    using main_stb_run [of img w rt] b c by (simp add: Let_def aborted_def)
  have 3: "status (main_cv (Some m) w rt) = Some 1 \<and> launches (main_cv (Some m) w rt) = []"
    using main_cv_run [of m w rt] b c by (simp add: Let_def aborted_def)
  from b 0 1 2 3 show ?thesis by simp
qed

theorem C7_witness:
  "setKernelArg2 (all_succeed\<lparr>setKernelArg2 := - 50\<rparr>) \<noteq> 0
   \<and> bind_errors (all_succeed\<lparr>setKernelArg2 := - 50\<rparr>) = - 50
   \<and> status (main_bmp (Some tiny_bmp) True (all_succeed\<lparr>setKernelArg2 := - 50\<rparr>)) = Some 1
   \<and> launches (main_bmp (Some tiny_bmp) True (all_succeed\<lparr>setKernelArg2 := - 50\<rparr>)) = []"
  using C7_bind_failure_aborts [of "all_succeed\<lparr>setKernelArg2 := - 50\<rparr>" "[]" "Some tiny_bmp" True]
  by (simp add: all_succeed_def bind_errors_def)

lemma completed_status: "completed r \<Longrightarrow> status r = Some 0"
  by (simp add: completed_def)

text \<open>Every run of a variant ends in one of a few ways.\<close>

lemma main_bmp_outcome:
  "((\<exists>line. aborted line (main_bmp src w rt))
      \<and> (any_failure rt \<or> \<not> w \<or> src = None \<or> (\<exists>f. src = Some f \<and> bfType f \<noteq> ''BM'')))
   \<or> (completed (main_bmp src w rt) \<and> created (main_bmp src w rt) = creation_order
      \<and> released (main_bmp src w rt) = release_order \<and> wrote_file (main_bmp src w rt)
      \<and> \<not> any_failure rt)"
proof (cases src rule: bmp_file_cases)
  case 1
  then have "aborted (if src = None then cannot_open_bmp else not_a_bmp) (main_bmp src w rt)"
    by (auto simp: loader_failures aborted_def wrote_file_def released_def)
  with 1 show ?thesis by blast
next
  case (2 f)
  note run = main_bmp_run [OF 2(2), of w rt, unfolded Let_def, folded 2(1)]
  show ?thesis
  proof (cases "first_failure (checks_bmp rt)")
    case None
    then have "\<not> any_failure rt" by (simp add: any_failure_bmp)
    with run None show ?thesis by (cases w) auto
  next
    case (Some c)
    then have "any_failure rt" by (simp add: any_failure_bmp)
    with run Some show ?thesis by auto
  qed
qed

lemma main_stb_outcome:
  "(jpg = None \<and> main_stb jpg w rt = Exited (- 1) [Stderr cannot_load_jpg])
   \<or> ((\<exists>line. aborted line (main_stb jpg w rt)) \<and> first_failure (checks_jpg rt) \<noteq> None)
   \<or> (completed (main_stb jpg w rt) \<and> released (main_stb jpg w rt) = release_order
      \<and> created (main_stb jpg w rt)
          = (if createInputBuffer rt = 0 then creation_order
             else remove1 Input_buffer creation_order)
      \<and> wrote_file (main_stb jpg w rt) = w
      \<and> first_failure (checks_jpg rt) = None)"
proof (cases jpg)
  case None
  then show ?thesis by (simp add: loader_failures)
next
  case (Some img)
  note run = main_stb_run [of img w rt, unfolded Let_def, folded Some]
  show ?thesis
  proof (cases "first_failure (checks_jpg rt)")
    case None
    with run show ?thesis by auto
  next
    case (Some c)
    with run show ?thesis by auto
  qed
qed

lemma main_cv_outcome:
  "(loaded = None \<and> main_cv loaded w rt = Exited (- 1) [Stderr cannot_load_image])
   \<or> ((\<exists>line. aborted line (main_cv loaded w rt)) \<and> first_failure (checks_jpg rt) \<noteq> None)
   \<or> (completed (main_cv loaded w rt) \<and> released (main_cv loaded w rt) = release_order
      \<and> created (main_cv loaded w rt)
          = (if createInputBuffer rt = 0 then creation_order
             else remove1 Input_buffer creation_order)
      \<and> wrote_file (main_cv loaded w rt) = w
      \<and> first_failure (checks_jpg rt) = None)"
proof (cases loaded)
  case None
  then show ?thesis by (simp add: loader_failures)
next
  case (Some m)
  note run = main_cv_run [of m w rt, unfolded Let_def, folded Some]
  show ?thesis
  proof (cases "first_failure (checks_jpg rt)")
    case None
    with run show ?thesis by auto
  next
    case (Some c)
    with run show ?thesis by auto
  qed
qed

lemma not_loaded_facts:
  "status (Exited (- 1) [Stderr line]) = Some (- 1)"
  "\<not> wrote_file (Exited (- 1) [Stderr line])"
  "released (Exited (- 1) [Stderr line]) = []"
  by (simp_all add: wrote_file_def released_def)

text \<open>
  In the BMP variant every failing runtime call ends the run with
  status 1 and no image file; in the stb and OpenCV variants every failing call whose
  error code is tested does.
\<close>

lemma checked_failure_writes_no_file:
  "(any_failure rt \<longrightarrow>
       status (main_bmp src w rt) = Some 1 \<and> \<not> wrote_file (main_bmp src w rt))
   \<and> (first_failure (checks_jpg rt) \<noteq> None \<longrightarrow>
       status (main_stb (Some img) w rt) = Some 1 \<and> \<not> wrote_file (main_stb jpg w rt)
     \<and> status (main_cv (Some m) w rt) = Some 1 \<and> \<not> wrote_file (main_cv loaded w rt))
   \<and> (wrote_file (main_bmp src w rt) \<longrightarrow> completed (main_bmp src w rt) \<and> \<not> any_failure rt)"
proof -
  note facts = aborted_facts completed_status
  have b: "(any_failure rt \<longrightarrow> status (main_bmp src w rt) = Some 1 \<and> \<not> wrote_file (main_bmp src w rt))
         \<and> (wrote_file (main_bmp src w rt) \<longrightarrow> completed (main_bmp src w rt) \<and> \<not> any_failure rt)"
    using main_bmp_outcome [of src w rt] by (auto dest: facts)
  have s: "first_failure (checks_jpg rt) \<noteq> None \<longrightarrow> \<not> wrote_file (main_stb jpg w rt)"
    using main_stb_outcome [of jpg w rt] by (auto dest: facts simp: not_loaded_facts)
  have s1: "first_failure (checks_jpg rt) \<noteq> None \<longrightarrow> status (main_stb (Some img) w rt) = Some 1"
    using main_stb_outcome [of "Some img" w rt] by (auto dest: facts)
  have c: "first_failure (checks_jpg rt) \<noteq> None \<longrightarrow> \<not> wrote_file (main_cv loaded w rt)"
    using main_cv_outcome [of loaded w rt] by (auto dest: facts simp: not_loaded_facts)
  have c1: "first_failure (checks_jpg rt) \<noteq> None \<longrightarrow> status (main_cv (Some m) w rt) = Some 1"
    using main_cv_outcome [of "Some m" w rt] by (auto dest: facts)
  from b s s1 c c1 show ?thesis by blast
qed


text \<open>
  C5 as the programs have it.  A run that returns 0 has made the six release calls
  once each, in the order kernel, program, input buffer, output buffer, queue, context,
  and has created the device objects in the order context, queue, program, input
  buffer, output buffer, kernel (in the stb and OpenCV variants without the input
  buffer, when its allocation failed): the context is created first and released last.
  A run that ends with any other status has released nothing.
\<close>

theorem C5_release_order:
  "(status (main_bmp src w rt) = Some 0 \<longrightarrow>
      created (main_bmp src w rt) = creation_order \<and> released (main_bmp src w rt) = release_order)
   \<and> (status (main_bmp src w rt) \<noteq> Some 0 \<longrightarrow> released (main_bmp src w rt) = [])
   \<and> (status (main_stb jpg w rt) = Some 0 \<longrightarrow>
      released (main_stb jpg w rt) = release_order
      \<and> created (main_stb jpg w rt)
          = (if createInputBuffer rt = 0 then creation_order
             else remove1 Input_buffer creation_order))
   \<and> (status (main_stb jpg w rt) \<noteq> Some 0 \<longrightarrow> released (main_stb jpg w rt) = [])
   \<and> (status (main_cv loaded w rt) = Some 0 \<longrightarrow>
      released (main_cv loaded w rt) = release_order
      \<and> created (main_cv loaded w rt)
          = (if createInputBuffer rt = 0 then creation_order
             else remove1 Input_buffer creation_order))
   \<and> (status (main_cv loaded w rt) \<noteq> Some 0 \<longrightarrow> released (main_cv loaded w rt) = [])
   \<and> hd creation_order = Context \<and> last release_order = Context"
proof -
  note facts = aborted_facts completed_status
  have b: "(status (main_bmp src w rt) = Some 0 \<longrightarrow>
      created (main_bmp src w rt) = creation_order \<and> released (main_bmp src w rt) = release_order)
   \<and> (status (main_bmp src w rt) \<noteq> Some 0 \<longrightarrow> released (main_bmp src w rt) = [])"
    using main_bmp_outcome [of src w rt] by (auto dest: facts)
  have s: "(status (main_stb jpg w rt) = Some 0 \<longrightarrow>
      released (main_stb jpg w rt) = release_order
      \<and> created (main_stb jpg w rt)
          = (if createInputBuffer rt = 0 then creation_order
             else remove1 Input_buffer creation_order))
   \<and> (status (main_stb jpg w rt) \<noteq> Some 0 \<longrightarrow> released (main_stb jpg w rt) = [])"
    using main_stb_outcome [of jpg w rt] by (auto dest: facts simp: not_loaded_facts)
  have c: "(status (main_cv loaded w rt) = Some 0 \<longrightarrow>
      released (main_cv loaded w rt) = release_order
      \<and> created (main_cv loaded w rt)
          = (if createInputBuffer rt = 0 then creation_order
             else remove1 Input_buffer creation_order))
   \<and> (status (main_cv loaded w rt) \<noteq> Some 0 \<longrightarrow> released (main_cv loaded w rt) = [])"
    using main_cv_outcome [of loaded w rt] by (auto dest: facts simp: not_loaded_facts)
  have o: "hd creation_order = Context \<and> last release_order = Context"
    by (simp add: creation_order_def release_order_def)
  from b s c o show ?thesis by blast
qed

theorem C5_witness:
  "status (main_bmp (Some tiny_bmp) True all_succeed) = Some 0
   \<and> created (main_bmp (Some tiny_bmp) True all_succeed)
       = [Context, Queue, Program, Input_buffer, Output_buffer, Kernel]
   \<and> released (main_bmp (Some tiny_bmp) True all_succeed)
       = [Kernel, Program, Input_buffer, Output_buffer, Queue, Context]
   \<and> status (main_stb None True all_succeed) \<noteq> Some 0
   \<and> released (main_stb None True all_succeed) = []"
  using C5_release_order [of "Some tiny_bmp" True all_succeed None "Some small_mat"]
  by (simp add: all_succeed_def tiny_bmp_def main_defs stmt_defs bind_errors_def
        creation_order_def release_order_def)

theorem C5_counterexample:
  "created (main_bmp (Some tiny_bmp) True all_succeed)
     = [Context, Queue, Program, Input_buffer, Output_buffer, Kernel]
   \<and> released (main_bmp (Some tiny_bmp) True all_succeed)
     = [Kernel, Program, Input_buffer, Output_buffer, Queue, Context]
   \<and> released (main_bmp (Some tiny_bmp) True all_succeed)
     \<noteq> rev (created (main_bmp (Some tiny_bmp) True all_succeed))
   \<and> status (main_bmp (Some tiny_bmp) True (all_succeed\<lparr>enqueueNDRange := - 5\<rparr>)) = Some 1
   \<and> created (main_bmp (Some tiny_bmp) True (all_succeed\<lparr>enqueueNDRange := - 5\<rparr>))
     = [Context, Queue, Program, Input_buffer, Output_buffer, Kernel]
   \<and> released (main_bmp (Some tiny_bmp) True (all_succeed\<lparr>enqueueNDRange := - 5\<rparr>)) = []"
  by (simp add: all_succeed_def tiny_bmp_def main_defs stmt_defs bind_errors_def
        created_def released_def)

text \<open>
  C9.  When \<^verbatim>\<open>clBuildProgram\<close> fails (the calls before it having succeeded), the run
  is: the context, the queue and the program are created; the line
  \<^verbatim>\<open>Build log:\<close>, the device compiler's log as it is and a line end are written to
  the error stream; then the error line of \<^verbatim>\<open>checkError\<close> is written and the program
  exits with status 1.  No variant exits on a build failure without the log before it.
\<close>

theorem C9_build_log_before_abort:
  assumes "getPlatformIDs rt = 0" "getDeviceIDs rt = 0" "createContext rt = 0"
    and "createCommandQueue rt = 0" "createProgramWithSource rt = 0"
    and "buildProgram rt \<noteq> 0"
  shows "(bfType f = ''BM'' \<longrightarrow>
            main_bmp (Some f) w rt =
              Exited 1 [Create Context None, Create Queue None, Create Program None,
                        Stderr (build_log_text (buildLog rt)),
                        Stderr (error_text (message Building_program) (buildProgram rt))])
       \<and> main_stb (Some img) w rt =
              Exited 1 [Create Context None, Create Queue None, Create Program None,
                        Stderr (build_log_text (buildLog rt)),
                        Stderr (error_text (message Building_program) (buildProgram rt))]
       \<and> main_cv (Some m) w rt =
              Exited 1 [Create Context None, Create Queue None, Create Program None,
                        Stderr (build_log_text (buildLog rt)),
                        Stderr (error_text_cv (message Building_program) (buildProgram rt))]
       \<and> build_log_text (buildLog rt) = ''Build log:'' @ newline @ buildLog rt @ newline"
  using assms by (simp add: main_defs stmt_defs build_log_text_def)

theorem C9_witness:
  "buildProgram (all_succeed\<lparr>buildProgram := - 11, buildLog := ''1:1: error''\<rparr>) \<noteq> 0
   \<and> main_bmp (Some tiny_bmp) True (all_succeed\<lparr>buildProgram := - 11, buildLog := ''1:1: error''\<rparr>)
       = Exited 1 [Create Context None, Create Queue None, Create Program None,
                   Stderr (''Build log:'' @ [CHR 0x0A] @ ''1:1: error'' @ [CHR 0x0A]),
                   Stderr (''Error: Building program (Error code: -11)'' @ [CHR 0x0A])]"
  using C9_build_log_before_abort
    [where rt = "all_succeed\<lparr>buildProgram := - 11, buildLog := ''1:1: error''\<rparr>"
       and f = tiny_bmp and w = True]
  by (simp add: all_succeed_def tiny_bmp_def build_log_text_def error_text_def message.simps
        show_int_def digits.simps newline_def)




text \<open>
  C3 fails in the OpenCV variant: for a 3 by 2 image of three channels the output device
  buffer is created with \<^verbatim>\<open>total() / channels\<close> = 2 bytes, while the launch covers 3 by 2
  work-items and the readback asks for the 6 bytes of the result matrix.
\<close>

theorem C3_opencv_output_buffer:
  "events (main_cv (Some small_mat) True all_succeed) =
     [Create Context None, Create Queue None, Create Program None,
      Create Input_buffer (Some 18), Create Output_buffer (Some 2), Upload 18,
      Create Kernel None, Launch (3, 2) None 3 2 3, Host_alloc 6, Readback 6,
      File_written ''gray_image.jpg'' 6,
      Release Kernel, Release Program, Release Input_buffer, Release Output_buffer,
      Release Queue, Release Context, Stdout confirmation]"
  by (simp add: main_defs stmt_defs all_succeed_def small_mat_def bind_errors_def total_def
        elemSize_def to_size_t_def)

section \<open>Claims about the kernel\<close>

lemmas kernel_eval = enqueueNDRangeKernel_def work_items_def rgb_to_gray_def pixel_idx_def
  gray_idx_def load_def add32_def mul32_def wrap32_def luma_def weighted_sum_def f32_literals
  f32_eval

lemma luma_white: "luma fp 255 255 255 = 255"
  by (cases fp; cases "fst fp"; cases "snd fp")
     (simp_all add: luma_def weighted_sum_def f32_literals f32_eval)

lemma luma_black: "luma fp 0 0 0 = 0"
  by (cases fp; cases "fst fp"; cases "snd fp")
     (simp_all add: luma_def weighted_sum_def f32_literals f32_eval)

lemma luma_red: "luma fp 255 0 0 = 76"
  by (cases fp; cases "fst fp"; cases "snd fp")
     (simp_all add: luma_def weighted_sum_def f32_literals f32_eval)

lemma luma_85_3_16: "luma fp 85 3 16 = 28"
  by (cases fp; cases "fst fp"; cases "snd fp")
     (simp_all add: luma_def weighted_sum_def f32_literals f32_eval)

text \<open>
  C1 as the kernel has it.  A work-item that completes has read the bytes \<open>blue\<close>,
  \<open>green\<close>, \<open>red\<close> at \<open>idx\<close>, \<open>idx + 1\<close>, \<open>idx + 2\<close> and writes the byte
  \<open>luma fp red green blue\<close>: the single-precision value of
  \<^verbatim>\<open>0.299f*red + 0.587f*green + 0.114f*blue\<close> with its fraction dropped.  Whatever
  products and sums the device contracts, this byte is the floor of the exact
  \<open>0.299 red + 0.587 green + 0.114 blue\<close>, except that it may be one less when the
  exact sum is a whole number.  White gives 255, black 0 and pure red 76.
\<close>

theorem C1_luminance:
  assumes "rgb_to_gray fp input out_len w h c gid = Inr (i, gray)"
  shows "(\<exists>red green blue.
            load input (pixel_idx w c gid) = Some blue
          \<and> load input (add32 (pixel_idx w c gid) 1) = Some green
          \<and> load input (add32 (pixel_idx w c gid) 2) = Some red
          \<and> gray = luma fp red green blue
          \<and> (unat gray = (299 * unat red + 587 * unat green + 114 * unat blue) div 1000
             \<or> ((299 * unat red + 587 * unat green + 114 * unat blue) mod 1000 = 0
                \<and> unat gray + 1
                    = (299 * unat red + 587 * unat green + 114 * unat blue) div 1000)))
       \<and> luma fp 255 255 255 = 255 \<and> luma fp 0 0 0 = 0 \<and> luma fp 255 0 0 = 76"
proof -
  from rgb_to_gray_reads [OF assms] obtain red green blue where r:
    "load input (pixel_idx w c gid) = Some blue"
    "load input (add32 (pixel_idx w c gid) 1) = Some green"
    "load input (add32 (pixel_idx w c gid) 2) = Some red"
    "gray = luma fp red green blue"
    by blast
  have fl: "unat gray = (299 * unat red + 587 * unat green + 114 * unat blue) div 1000
             \<or> ((299 * unat red + 587 * unat green + 114 * unat blue) mod 1000 = 0
                \<and> unat gray + 1
                    = (299 * unat red + 587 * unat green + 114 * unat blue) div 1000)"
    unfolding r(4) by (rule luma_floor)
  have "\<exists>red green blue.
            load input (pixel_idx w c gid) = Some blue
          \<and> load input (add32 (pixel_idx w c gid) 1) = Some green
          \<and> load input (add32 (pixel_idx w c gid) 2) = Some red
          \<and> gray = luma fp red green blue
          \<and> (unat gray = (299 * unat red + 587 * unat green + 114 * unat blue) div 1000
             \<or> ((299 * unat red + 587 * unat green + 114 * unat blue) mod 1000 = 0
                \<and> unat gray + 1
                    = (299 * unat red + 587 * unat green + 114 * unat blue) div 1000))"
    using r(1,2,3,4) fl by (intro exI conjI)
  then show ?thesis by (simp add: luma_white luma_black luma_red)
qed

theorem C1_witness:
  "rgb_to_gray (Separate, False) [16, 3, 85] 1 1 1 3 (0, 0) = Inr (0, 28)
   \<and> (\<exists>red green blue.
         load [16, 3, 85] (pixel_idx 1 3 (0, 0)) = Some blue
       \<and> load [16, 3, 85] (add32 (pixel_idx 1 3 (0, 0)) 1) = Some green
       \<and> load [16, 3, 85] (add32 (pixel_idx 1 3 (0, 0)) 2) = Some red
       \<and> (28 :: uchar) = luma (Separate, False) red green blue
       \<and> (unat (28 :: uchar) = (299 * unat red + 587 * unat green + 114 * unat blue) div 1000
          \<or> ((299 * unat red + 587 * unat green + 114 * unat blue) mod 1000 = 0
             \<and> unat (28 :: uchar) + 1
                 = (299 * unat red + 587 * unat green + 114 * unat blue) div 1000)))"
proof -
  have e: "rgb_to_gray (Separate, False) [16, 3, 85] 1 1 1 3 (0, 0) = Inr (0, 28)"
    by (simp add: kernel_eval)
  from e C1_luminance [OF e] show ?thesis by blast
qed

theorem C1_counterexample:
  "rgb_to_gray (Separate, False) [16, 3, 85] 1 1 1 3 (0, 0) = Inr (0, 28)
   \<and> luma (Separate, False) 85 3 16 = 28 \<and> luma (Separate, True) 85 3 16 = 28
   \<and> luma (Fused_red, False) 85 3 16 = 28 \<and> luma (Fused_red, True) 85 3 16 = 28
   \<and> luma (Fused_green, False) 85 3 16 = 28 \<and> luma (Fused_green, True) 85 3 16 = 28
   \<and> (299 * 85 + 587 * 3 + 114 * 16) div 1000 = (29 :: nat)"
  by (simp add: luma_85_3_16) (simp add: kernel_eval)

text \<open>
  C4 fails in the stb variant: the loader stages a pixel as red, green, blue, and the
  kernel takes the first byte for blue and the third for red.  A pure red pixel comes out
  as 29, the weight of blue, where the BMP and OpenCV byte order gives 76.  In the BMP
  variant the kernel's offsets take no account of the padding of the rows: in an image
  one pixel wide and two high, the second row's pixel is read one byte early.
\<close>

theorem C4_stb_red_as_blue:
  "stage STB [[\<lparr>red_of = 255, green_of = 0, blue_of = 0\<rparr>]] = [255, 0, 0]
   \<and> stage BMP [[\<lparr>red_of = 255, green_of = 0, blue_of = 0\<rparr>]] = [0, 0, 255, 0]
   \<and> stage OpenCV [[\<lparr>red_of = 255, green_of = 0, blue_of = 0\<rparr>]] = [0, 0, 255]
   \<and> enqueueNDRangeKernel (Separate, False)
        (stage STB [[\<lparr>red_of = 255, green_of = 0, blue_of = 0\<rparr>]]) [0] 1 1 3 (1, 1) = Inr [29]
   \<and> enqueueNDRangeKernel (Separate, False)
        (stage BMP [[\<lparr>red_of = 255, green_of = 0, blue_of = 0\<rparr>]]) [0] 1 1 3 (1, 1) = Inr [76]
   \<and> enqueueNDRangeKernel (Separate, False)
        (stage OpenCV [[\<lparr>red_of = 255, green_of = 0, blue_of = 0\<rparr>]]) [0] 1 1 3 (1, 1)
       = Inr [76]
   \<and> loader_order STB = [Red, Green, Blue] \<and> kernel_order = [Blue, Green, Red]
   \<and> loader_order BMP = kernel_order \<and> loader_order OpenCV = kernel_order
   \<and> stage BMP [[\<lparr>red_of = 255, green_of = 0, blue_of = 0\<rparr>],
                  [\<lparr>red_of = 255, green_of = 0, blue_of = 0\<rparr>]]
       = [0, 0, 255, 0, 0, 0, 255, 0]
   \<and> enqueueNDRangeKernel (Separate, False)
        (stage BMP [[\<lparr>red_of = 255, green_of = 0, blue_of = 0\<rparr>],
                    [\<lparr>red_of = 255, green_of = 0, blue_of = 0\<rparr>]]) [0, 0] 1 2 3 (1, 2)
       = Inr [76, 0]"
  by (simp add: stage_def row_bytes_def pixel_bytes_def kernel_order_def kernel_eval
        upt_conv_Cons)










lemma add32_past_end:
  assumes "0 \<le> n" "n \<le> 2147483647" "0 \<le> k" "k \<le> 2" "int (length buf) \<le> n + k"
  shows "load buf (add32 n k) = None"
proof (cases "n + k \<le> 2147483647")
  case True
  then have "add32 n k = n + k" unfolding add32_def using assms(1,3) by (intro wrap32_id) auto
  then show ?thesis using assms(5) by (simp add: load_None)
next
  case False
  define m where "m = n + k - 2147483648"
  have m: "0 \<le> m" "m < 4294967296" using False assms(2,4) by (simp_all add: m_def)
  have "n + k + 2147483648 = m + 1 * 4294967296" by (simp add: m_def)
  then have "(n + k + 2147483648) mod 4294967296 = m"
    using m by (simp only: mod_mult_self2) simp
  then have "add32 n k = m - 2147483648" by (simp add: add32_def wrap32_def)
  then have "add32 n k < 0" using assms(2,4) by (simp add: m_def)
  then show ?thesis by (simp add: load_def)
qed

text \<open>
  C10 as the kernel has it, for an image whose byte count \<open>width * height * channels\<close>
  fits the kernel's 32-bit \<^verbatim>\<open>int\<close>.  A work-item that completes has read the input at
  \<open>idx\<close>, \<open>idx + 1\<close> and \<open>idx + 2\<close>.  With an input buffer of
  \<open>width * height * channels\<close> bytes and an output buffer of \<open>width * height\<close> bytes,
  every work-item \<open>(x, y)\<close> with \<open>x < width\<close> and \<open>y < height\<close> completes, writing at
  \<open>y * width + x\<close>, exactly when \<open>channels\<close> is at least 3; with one channel the index
  of the last pixel is the last offset of the input buffer and its reads at \<open>idx + 1\<close>
  and \<open>idx + 2\<close> are outside the buffer.
\<close>

theorem C10_in_bounds_iff:
  assumes "0 < w" "0 < h" "w * h * c \<le> 2147483647"
    and "int (length input) = max 0 (w * h * c)" "int out_len = w * h"
  shows "((\<forall>x < nat w. \<forall>y < nat h.
             \<exists>g. rgb_to_gray fp input out_len w h c (x, y) = Inr (nat (int y * w + int x), g))
          \<longleftrightarrow> 3 \<le> c)
       \<and> (3 \<le> c \<or> (\<exists>x < nat w. \<exists>y < nat h. \<exists>f.
               rgb_to_gray fp input out_len w h c (x, y) = Inl f))
       \<and> (\<forall>gid i g. rgb_to_gray fp input out_len w h c gid = Inr (i, g) \<longrightarrow>
             load input (pixel_idx w c gid) \<noteq> None
           \<and> load input (add32 (pixel_idx w c gid) 1) \<noteq> None
           \<and> load input (add32 (pixel_idx w c gid) 2) \<noteq> None
           \<and> i < out_len)
       \<and> (c = 1 \<longrightarrow>
             pixel_idx w c (nat w - 1, nat h - 1) = int (length input) - 1
           \<and> load input (add32 (pixel_idx w c (nat w - 1, nat h - 1)) 1) = None
           \<and> load input (add32 (pixel_idx w c (nat w - 1, nat h - 1)) 2) = None
           \<and> (\<exists>f. rgb_to_gray fp input out_len w h c (nat w - 1, nat h - 1) = Inl f))"
proof -
  have wh1: "1 \<le> w * h" using assms(1,2) by (simp add: mult_pos_pos int_one_le_iff_zero_less)
  have wide: "\<exists>g. rgb_to_gray fp input out_len w h c (x, y) = Inr (nat (int y * w + int x), g)"
    if c3: "3 \<le> c" and xy: "x < nat w" "y < nat h" for x y
  proof -
    have "0 \<le> w * h * c" using wh1 c3 by simp
    then have len: "int (length input) = w * h * c" using assms(4) by simp
    show ?thesis
      using rgb_to_gray_in_bounds [OF assms(1,2) c3 assms(3) len assms(5) xy, of fp] by blast
  qed
  have narrow: "\<exists>x < nat w. \<exists>y < nat h. \<exists>f. rgb_to_gray fp input out_len w h c (x, y) = Inl f"
    if "c < 3"
    by (rule rgb_to_gray_narrow_fault [OF assms(1,2) that assms(3,4)])
  have iff: "(\<forall>x < nat w. \<forall>y < nat h.
             \<exists>g. rgb_to_gray fp input out_len w h c (x, y) = Inr (nat (int y * w + int x), g))
          \<longleftrightarrow> 3 \<le> c"
  proof
    assume a: "\<forall>x < nat w. \<forall>y < nat h.
             \<exists>g. rgb_to_gray fp input out_len w h c (x, y) = Inr (nat (int y * w + int x), g)"
    show "3 \<le> c"
    proof (rule ccontr)
      assume "\<not> 3 \<le> c"
      then have "c < 3" by simp
      from narrow [OF this] obtain x y f where
        "x < nat w" "y < nat h" "rgb_to_gray fp input out_len w h c (x, y) = Inl f" by blast
      with a show False by fastforce
    qed
  next
    assume "3 \<le> c"
    then show "\<forall>x < nat w. \<forall>y < nat h.
             \<exists>g. rgb_to_gray fp input out_len w h c (x, y) = Inr (nat (int y * w + int x), g)"
      using wide by blast
  qed
  have disj: "3 \<le> c \<or> (\<exists>x < nat w. \<exists>y < nat h. \<exists>f.
               rgb_to_gray fp input out_len w h c (x, y) = Inl f)"
    using narrow by (cases "3 \<le> c") auto
  have reads: "\<forall>gid i g. rgb_to_gray fp input out_len w h c gid = Inr (i, g) \<longrightarrow>
             load input (pixel_idx w c gid) \<noteq> None
           \<and> load input (add32 (pixel_idx w c gid) 1) \<noteq> None
           \<and> load input (add32 (pixel_idx w c gid) 2) \<noteq> None
           \<and> i < out_len"
  proof (intro allI impI)
    fix gid i g assume "rgb_to_gray fp input out_len w h c gid = Inr (i, g)"
    from rgb_to_gray_reads [OF this]
    show "load input (pixel_idx w c gid) \<noteq> None
           \<and> load input (add32 (pixel_idx w c gid) 1) \<noteq> None
           \<and> load input (add32 (pixel_idx w c gid) 2) \<noteq> None
           \<and> i < out_len" by auto
  qed
  have one: "c = 1 \<longrightarrow>
             pixel_idx w c (nat w - 1, nat h - 1) = int (length input) - 1
           \<and> load input (add32 (pixel_idx w c (nat w - 1, nat h - 1)) 1) = None
           \<and> load input (add32 (pixel_idx w c (nat w - 1, nat h - 1)) 2) = None
           \<and> (\<exists>f. rgb_to_gray fp input out_len w h c (nat w - 1, nat h - 1) = Inl f)"
  proof
    assume c1: "c = 1"
    have len: "int (length input) = w * h" using assms(4) wh1 c1 by simp
    have small: "w * h \<le> 2147483647" using assms(3) c1 by simp
    have "pixel_idx w c (nat w - 1, nat h - 1) = (w * h - 1) * c"
      by (rule last_pixel_idx [OF assms(1,2) _ assms(3)]) (simp add: c1)
    then have idx: "pixel_idx w c (nat w - 1, nat h - 1) = w * h - 1" by (simp add: c1)
    have l1: "load input (add32 (w * h - 1) 1) = None"
      using wh1 small len by (intro add32_past_end) auto
    have l2: "load input (add32 (w * h - 1) 2) = None"
      using wh1 small len by (intro add32_past_end) auto
    have f: "\<exists>f. rgb_to_gray fp input out_len w h c (nat w - 1, nat h - 1) = Inl f"
      by (rule rgb_to_gray_fault) (simp only: idx l1 simp_thms)
    from idx l1 l2 f len
    show "pixel_idx w c (nat w - 1, nat h - 1) = int (length input) - 1
           \<and> load input (add32 (pixel_idx w c (nat w - 1, nat h - 1)) 1) = None
           \<and> load input (add32 (pixel_idx w c (nat w - 1, nat h - 1)) 2) = None
           \<and> (\<exists>f. rgb_to_gray fp input out_len w h c (nat w - 1, nat h - 1) = Inl f)"
      by simp
  qed
  from iff disj reads one show ?thesis by - (intro conjI; assumption)
qed

theorem C10_witness:
  "(0::int) < 2 \<and> (0::int) < 1 \<and> (2::int) * 1 * 1 \<le> 2147483647
   \<and> int (length [7, 9 :: uchar]) = max 0 (2 * 1 * 1) \<and> int (2::nat) = 2 * 1
   \<and> \<not> (3::int) \<le> 1
   \<and> (\<exists>x < nat 2. \<exists>y < nat 1. \<exists>f.
          rgb_to_gray (Separate, False) [7, 9] 2 2 1 1 (x, y) = Inl f)
   \<and> load [7, 9] (add32 (pixel_idx 2 1 (nat 2 - 1, nat 1 - 1)) 1) = None
   \<and> load [7, 9] (add32 (pixel_idx 2 1 (nat 2 - 1, nat 1 - 1)) 2) = None"
proof -
  have h: "(0::int) < 2" "(0::int) < 1" "(2::int) * 1 * 1 \<le> 2147483647"
    "int (length [7, 9 :: uchar]) = max 0 (2 * 1 * 1)" "int (2::nat) = 2 * 1"
    by simp_all
  have n: "\<not> (3::int) \<le> 1" by simp
  note t = C10_in_bounds_iff [OF h, of "(Separate, False)"]
  from t n have a: "\<exists>x < nat 2. \<exists>y < nat 1. \<exists>f.
          rgb_to_gray (Separate, False) [7, 9] 2 2 1 1 (x, y) = Inl f" by blast
  from t have b: "load [7, 9] (add32 (pixel_idx 2 1 (nat 2 - 1, nat 1 - 1)) 1) = None
     \<and> load [7, 9] (add32 (pixel_idx 2 1 (nat 2 - 1, nat 1 - 1)) 2) = None" by blast
  from h n a b show ?thesis by - (intro conjI; (elim conjE)?; assumption)
qed

theorem C10_counterexample:
  "int (length huge_input) = 30000 * 30000 * 3 \<and> (3::int) \<le> 3
   \<and> 30000 * 30000 * 3 > (2147483647 :: int)
   \<and> rgb_to_gray (Separate, False) huge_input 900000000 30000 30000 3 (29999, 29999)
       = Inl (Read_out_of_bounds (- 1594967299))"
proof -
  have "length huge_input = 2700000000" by (simp only: huge_input_def length_replicate)
  then have l: "int (length huge_input) = 30000 * 30000 * 3" by simp
  have i: "pixel_idx 30000 3 (29999, 29999) = - 1594967299"
    by (simp add: pixel_idx_def add32_def mul32_def wrap32_def)
  have "load huge_input (- 1594967299) = None" by (simp add: load_def)
  then have r: "rgb_to_gray (Separate, False) huge_input 900000000 30000 30000 3 (29999, 29999)
       = Inl (Read_out_of_bounds (- 1594967299))"
    by (simp add: rgb_to_gray_def i)
  from l r show ?thesis by simp
qed

end
